theory Spec2Isabelle
  imports Complex_Main "HOL-Library.Word"
begin

section \<open>The speech-to-text editor plugin (src/main.ts)\<close>

text \<open>
  The plugin is one class, \<^verbatim>\<open>STTAiEditorPlugin\<close>, with four mutable fields besides its
  settings, and one settings tab whose three text fields write the settings back. Every
  method is embedded as a function from the plugin's fields to the updated fields and the
  list of effects it performs on its host, in program order. A call the method awaits
  (the microphone request, the recognition request, the generative request) is a
  parameter of the function: the settled outcome of that call. The methods marked
  \<^verbatim>\<open>aasync\<close> in the source are read as \<^verbatim>\<open>async\<close> methods.

  The program is embedded twice. The first part gives each method as one step, from its
  call to its last effect: the awaits are answered at once, the audio is read without
  error, and the recognition response has the documented shape. The second part
  (``The callbacks, one await at a time'') drops the three assumptions: every stretch of
  code between two awaits is a step of its own, other callbacks may run between the steps
  of a method, reading the audio may fail, and the response body may decode to any value.
\<close>

subsection \<open>Data\<close>

type_synonym byte = "8 word"

text \<open>A \<^verbatim>\<open>Blob\<close>: its bytes and its MIME type.\<close>

record blob =
  blob_bytes :: "byte list"
  blob_type :: string

text \<open>\<^verbatim>\<open>new Blob(parts, { type })\<close> concatenates the parts in the order of the array.\<close>

definition new_Blob :: "blob list \<Rightarrow> string \<Rightarrow> blob" where
  "new_Blob parts ty = \<lparr>blob_bytes = concat (map blob_bytes parts), blob_type = ty\<rparr>"

record STTAiEditorSettings =
  googleApiKey :: string
  geminiApiKey :: string
  languageCode :: string

definition DEFAULT_SETTINGS :: STTAiEditorSettings where
  "DEFAULT_SETTINGS = \<lparr>googleApiKey = [], geminiApiKey = [], languageCode = ''en-US''\<rparr>"

text \<open>
  What \<^verbatim>\<open>loadData()\<close> resolves to: \<^verbatim>\<open>null\<close> when nothing was saved, otherwise an
  object that holds some of the three keys.
\<close>

record saved_data =
  saved_googleApiKey :: "string option"
  saved_geminiApiKey :: "string option"
  saved_languageCode :: "string option"

datatype recording_state = inactive | recording

record MediaRecorder =
  rec_stream :: nat
  rec_state :: recording_state

datatype GoogleGenerativeAI = GoogleGenerativeAI string

record plugin =
  settings :: STTAiEditorSettings
  isRecording :: bool
  mediaRecorder :: "MediaRecorder option"
  audioChunks :: "blob list"
  genAI :: "GoogleGenerativeAI option"

text \<open>
  The values a promise of the program is rejected with, or a \<^verbatim>\<open>catch\<close> receives: a
  plain string, an \<^verbatim>\<open>Error\<close> made by the program with its message, the
  \<^verbatim>\<open>TypeError\<close> of reading a property of \<^verbatim>\<open>undefined\<close>, and an error raised by the
  host (microphone, network, decoder, generative client), identified by a number.
\<close>

datatype js_error =
    StringValue string
  | ErrorObject string
  | TypeError
  | HostError nat

text \<open>The body of the recognition request, and the request itself.\<close>

record recognize_request =
  req_url :: string
  req_encoding :: string
  req_sampleRateHertz :: nat
  req_languageCode :: string
  req_content :: blob

text \<open>
  The decoded recognition response, at the shape the program reads:
  \<^verbatim>\<open>data.results[0].alternatives[0].transcript\<close>. A property that may be missing is an
  option.
\<close>

record alternative =
  transcript :: string

record recognition_result =
  alternatives :: "alternative list option"

record recognition_data =
  results :: "recognition_result list option"

datatype json_outcome = JsonRejects nat | JsonData recognition_data

text \<open>
  The outcome of \<^verbatim>\<open>fetch\<close>: rejected (no response at all), or a response with its HTTP
  status and what \<^verbatim>\<open>response.json()\<close> does with its body.
\<close>

datatype fetch_outcome = FetchRejects nat | FetchResponds nat json_outcome

text \<open>
  The outcome of \<^verbatim>\<open>model.generateContent(prompt)\<close> followed by \<^verbatim>\<open>response.text()\<close>.
\<close>

datatype text_outcome = TextThrows nat | TextReturns string

datatype generate_outcome = GenerateRejects nat | GenerateResponds text_outcome

text \<open>
  The outcome of the three host calls of \<^verbatim>\<open>startRecording\<close>, each of which may throw
  inside the \<^verbatim>\<open>try\<close>: \<^verbatim>\<open>getUserMedia\<close>, \<^verbatim>\<open>new MediaRecorder(stream)\<close> and
  \<^verbatim>\<open>mediaRecorder.start()\<close>. The stream is identified by a number.
\<close>

datatype media_outcome =
    GetUserMediaRejects nat
  | ConstructorThrows nat nat
  | StartThrows nat nat
  | Captures nat

text \<open>
  What one run of \<^verbatim>\<open>handleStop\<close> meets: the two service outcomes and whether the
  workspace has an active Markdown view with an editor.
\<close>

record env =
  fetch_result :: fetch_outcome
  generate_result :: generate_outcome
  activeEditor :: bool

text \<open>
  A decoded response body in general: any JSON value. A number is the double that
  \<^verbatim>\<open>JSON.parse\<close> makes of it, given by its exact value, or an infinity (never a NaN; both
  zeros are \<open>Finite 0\<close>). An object is the list of its own properties; should a name
  stand twice in the list, the first entry is the property. A character of a string stands
  for one code unit. \<^verbatim>\<open>undefined\<close> is \<open>None\<close>.
\<close>

datatype js_number = Finite rat | PlusInfinity | MinusInfinity

datatype json =
    JNull
  | JBool bool
  | JNumber js_number
  | JString string
  | JArray "json list"
  | JObject "(string \<times> json) list"

type_synonym js_value = "json option"

text \<open>
  The recognition request as \<open>onloadend\<close> sends it. \<open>call_content\<close> is
  \<^verbatim>\<open>reader.result.split(',')[1]\<close>; when that is \<^verbatim>\<open>undefined\<close>, \<^verbatim>\<open>JSON.stringify\<close> leaves
  the property out.
\<close>

record recognize_call =
  call_url :: string
  call_encoding :: string
  call_sampleRateHertz :: nat
  call_languageCode :: string
  call_content :: "string option"

text \<open>
  The effects, in the order the program performs them. \<open>CallTranscribeAudio\<close> and
  \<open>CallCleanText\<close> mark the entry of the two methods; \<open>ClearChunks\<close> is the assignment
  \<^verbatim>\<open>this.audioChunks = []\<close>. The last three are effects of the second part only: the start
  of the read of the audio, the recognition request with the text cut from the read
  result, and the entry of \<open>cleanText\<close> with whatever value transcription resolved to.
\<close>

datatype event =
    AddRibbonIcon
  | AddSettingTab
  | SaveData STTAiEditorSettings
  | GetUserMedia
  | NewMediaRecorder nat
  | RecorderStart
  | RecorderStop
  | Notice string
  | ConsoleError "string option" js_error
  | CallTranscribeAudio blob
  | Fetch recognize_request
  | CallCleanText string
  | GenerateContent GoogleGenerativeAI string string
  | ReplaceSelection string
  | ClearChunks
  | ReadAsDataURL blob
  | FetchRecognize recognize_call
  | CallCleanTextWith js_value

subsection \<open>Loading\<close>

text \<open>The field initialisers of the class; \<open>settings\<close> is assigned by \<open>loadSettings\<close>.\<close>

definition new_plugin :: plugin where
  "new_plugin = \<lparr>settings = DEFAULT_SETTINGS, isRecording = False, mediaRecorder = None,
     audioChunks = [], genAI = None\<rparr>"

text \<open>\<^verbatim>\<open>Object.assign({}, DEFAULT_SETTINGS, await this.loadData())\<close>\<close>

definition object_assign :: "STTAiEditorSettings \<Rightarrow> saved_data option \<Rightarrow> STTAiEditorSettings" where
  "object_assign d saved =
     (case saved of
        None \<Rightarrow> d
      | Some o1 \<Rightarrow>
          \<lparr>googleApiKey = (case saved_googleApiKey o1 of None \<Rightarrow> googleApiKey d | Some v \<Rightarrow> v),
           geminiApiKey = (case saved_geminiApiKey o1 of None \<Rightarrow> geminiApiKey d | Some v \<Rightarrow> v),
           languageCode = (case saved_languageCode o1 of None \<Rightarrow> languageCode d | Some v \<Rightarrow> v)\<rparr>)"

definition loadSettings :: "saved_data option \<Rightarrow> plugin \<Rightarrow> plugin" where
  "loadSettings saved s = s\<lparr>settings := object_assign DEFAULT_SETTINGS saved\<rparr>"

definition saveSettings :: "plugin \<Rightarrow> event list" where
  "saveSettings s = [SaveData (settings s)]"

definition onload :: "saved_data option \<Rightarrow> plugin \<Rightarrow> plugin \<times> event list" where
  "onload saved s0 =
     (let s1 = loadSettings saved s0;
          s2 = (if geminiApiKey (settings s1) \<noteq> []
                then s1\<lparr>genAI := Some (GoogleGenerativeAI (geminiApiKey (settings s1)))\<rparr>
                else s1)
      in (s2, [AddRibbonIcon, AddSettingTab]))"

subsection \<open>Recording\<close>

definition microphone_error :: "nat \<Rightarrow> event list" where
  "microphone_error err =
     [Notice ''Error accessing microphone. Please check permissions.'',
      ConsoleError (Some ''Error accessing microphone:'') (HostError err)]"

fun startRecording :: "media_outcome \<Rightarrow> plugin \<Rightarrow> plugin \<times> event list" where
  "startRecording (GetUserMediaRejects err) s = (s, GetUserMedia # microphone_error err)"
| "startRecording (ConstructorThrows stream err) s = (s, GetUserMedia # microphone_error err)"
| "startRecording (StartThrows stream err) s =
     (s\<lparr>mediaRecorder := Some \<lparr>rec_stream = stream, rec_state = inactive\<rparr>\<rparr>,
      [GetUserMedia, NewMediaRecorder stream] @ microphone_error err)"
| "startRecording (Captures stream) s =
     (s\<lparr>mediaRecorder := Some \<lparr>rec_stream = stream, rec_state = recording\<rparr>,
        isRecording := True\<rparr>,
      [GetUserMedia, NewMediaRecorder stream, RecorderStart, Notice ''Recording started...''])"

text \<open>The \<^verbatim>\<open>ondataavailable\<close> handler that \<open>startRecording\<close> installs.\<close>

definition ondataavailable :: "blob \<Rightarrow> plugin \<Rightarrow> plugin" where
  "ondataavailable data s = s\<lparr>audioChunks := audioChunks s @ [data]\<rparr>"

definition stopRecording :: "plugin \<Rightarrow> plugin \<times> event list" where
  "stopRecording s =
     (case mediaRecorder s of
        None \<Rightarrow> (s, [])
      | Some r \<Rightarrow>
          if isRecording s
          then (s\<lparr>mediaRecorder := Some (r\<lparr>rec_state := inactive\<rparr>), isRecording := False\<rparr>,
                [RecorderStop, Notice ''Recording stopped.''])
          else (s, []))"

definition toggleRecording :: "media_outcome \<Rightarrow> plugin \<Rightarrow> plugin \<times> event list" where
  "toggleRecording m s = (if isRecording s then stopRecording s else startRecording m s)"

subsection \<open>Transcription\<close>

definition recognize_url :: "string \<Rightarrow> string" where
  "recognize_url key = ''https://speech.googleapis.com/v1/speech:recognize?key='' @ key"

text \<open>
  The request carries the audio as the base64 text that \<^verbatim>\<open>FileReader.readAsDataURL\<close>
  produces from the blob; \<open>req_content\<close> holds the blob that text encodes.
\<close>

definition recognize_body :: "plugin \<Rightarrow> blob \<Rightarrow> recognize_request" where
  "recognize_body s b =
     \<lparr>req_url = recognize_url (googleApiKey (settings s)),
      req_encoding = ''WEBM_OPUS'',
      req_sampleRateHertz = 48000,
      req_languageCode = languageCode (settings s),
      req_content = b\<rparr>"

text \<open>
  \<^verbatim>\<open>if (data.results && data.results.length > 0)
      resolve(data.results[0].alternatives[0].transcript);
  else reject('No transcript found');\<close>
  Reading \<^verbatim>\<open>[0]\<close> of a missing \<^verbatim>\<open>alternatives\<close>, or \<^verbatim>\<open>.transcript\<close> of a missing first
  alternative, throws a \<^verbatim>\<open>TypeError\<close> inside the \<^verbatim>\<open>try\<close>, which rejects with it.
\<close>

definition read_transcript :: "recognition_data \<Rightarrow> js_error + string" where
  "read_transcript data =
     (case results data of
        None \<Rightarrow> Inl (StringValue ''No transcript found'')
      | Some [] \<Rightarrow> Inl (StringValue ''No transcript found'')
      | Some (r # _) \<Rightarrow>
          (case alternatives r of
             None \<Rightarrow> Inl TypeError
           | Some [] \<Rightarrow> Inl TypeError
           | Some (a # _) \<Rightarrow> Inr (transcript a)))"

definition transcribeAudio :: "fetch_outcome \<Rightarrow> plugin \<Rightarrow> blob \<Rightarrow> (js_error + string) \<times> event list" where
  "transcribeAudio f s b =
     (case f of
        FetchRejects err \<Rightarrow> Inl (HostError err)
      | FetchResponds status body \<Rightarrow>
          (case body of
             JsonRejects err \<Rightarrow> Inl (HostError err)
           | JsonData data \<Rightarrow> read_transcript data),
      [CallTranscribeAudio b, Fetch (recognize_body s b)])"

subsection \<open>Refinement\<close>

definition instruction :: string where
  "instruction =
     ''Please clean up the following text, correcting any grammar or spelling mistakes, and improving the overall readability. Do not add any new information or change the meaning of the text.''
     @ [CHR 0x0A, CHR 0x0A]"

definition cleanText :: "generate_outcome \<Rightarrow> plugin \<Rightarrow> string \<Rightarrow> (js_error + string) \<times> event list" where
  "cleanText g s text =
     (case genAI s of
        None \<Rightarrow> (Inl (ErrorObject ''Generative AI not initialized.''), [CallCleanText text])
      | Some ai \<Rightarrow>
          (let prompt = instruction @ text
           in (case g of
                 GenerateRejects err \<Rightarrow> Inl (HostError err)
               | GenerateResponds r \<Rightarrow>
                   (case r of
                      TextThrows err \<Rightarrow> Inl (HostError err)
                    | TextReturns cleanedText \<Rightarrow> Inr cleanedText),
               [CallCleanText text, GenerateContent ai ''gemini-pro'' prompt])))"

subsection \<open>The pipeline\<close>

text \<open>The \<^verbatim>\<open>try\<close> block of \<open>handleStop\<close>: the error it throws, if any, and its effects.\<close>

definition handleStop_try :: "env \<Rightarrow> plugin \<Rightarrow> blob \<Rightarrow> js_error option \<times> event list" where
  "handleStop_try e s b =
     (case transcribeAudio (fetch_result e) s b of
        (Inl error, ev1) \<Rightarrow> (Some error, ev1)
      | (Inr rawText, ev1) \<Rightarrow>
          (case cleanText (generate_result e) s rawText of
             (Inl error, ev2) \<Rightarrow> (Some error, ev1 @ ev2)
           | (Inr cleanedText, ev2) \<Rightarrow>
               (None, ev1 @ ev2 @ (if activeEditor e then [ReplaceSelection cleanedText] else []))))"

definition handleStop_catch :: "js_error option \<Rightarrow> event list" where
  "handleStop_catch thrown =
     (case thrown of
        None \<Rightarrow> []
      | Some error \<Rightarrow>
          [Notice ''Error processing audio. Please check the console for details.'',
           ConsoleError None error])"

text \<open>The first statement of \<open>handleStop\<close>: \<^verbatim>\<open>new Blob(this.audioChunks, { type: 'audio/webm' })\<close>.\<close>

definition audioBlob :: "plugin \<Rightarrow> blob" where
  "audioBlob s = new_Blob (audioChunks s) ''audio/webm''"

definition handleStop :: "env \<Rightarrow> plugin \<Rightarrow> plugin \<times> event list" where
  "handleStop e s =
     (case handleStop_try e s (audioBlob s) of
        (thrown, ev) \<Rightarrow> (s\<lparr>audioChunks := []\<rparr>, ev @ handleStop_catch thrown @ [ClearChunks]))"

subsection \<open>The settings tab\<close>

definition onChange_googleApiKey :: "string \<Rightarrow> plugin \<Rightarrow> plugin \<times> event list" where
  "onChange_googleApiKey v s =
     (let s' = s\<lparr>settings := (settings s)\<lparr>googleApiKey := v\<rparr>\<rparr> in (s', saveSettings s'))"

definition onChange_geminiApiKey :: "string \<Rightarrow> plugin \<Rightarrow> plugin \<times> event list" where
  "onChange_geminiApiKey v s =
     (let s' = s\<lparr>settings := (settings s)\<lparr>geminiApiKey := v\<rparr>\<rparr> in (s', saveSettings s'))"

definition onChange_languageCode :: "string \<Rightarrow> plugin \<Rightarrow> plugin \<times> event list" where
  "onChange_languageCode v s =
     (let s' = s\<lparr>settings := (settings s)\<lparr>languageCode := v\<rparr>\<rparr> in (s', saveSettings s'))"

subsection \<open>What the host can do to a loaded plugin\<close>

text \<open>
  After \<open>onload\<close> the host calls back into the plugin: a click on the ribbon icon, a chunk
  of audio from the recorder, the recorder's stop event, an edit of one of the three
  settings fields.
\<close>

datatype action =
    Click media_outcome
  | DataAvailable blob
  | Stopped env
  | EditGoogleApiKey string
  | EditGeminiApiKey string
  | EditLanguageCode string

fun perform :: "action \<Rightarrow> plugin \<Rightarrow> plugin \<times> event list" where
  "perform (Click m) s = toggleRecording m s"
| "perform (DataAvailable data) s = (ondataavailable data s, [])"
| "perform (Stopped e) s = handleStop e s"
| "perform (EditGoogleApiKey v) s = onChange_googleApiKey v s"
| "perform (EditGeminiApiKey v) s = onChange_geminiApiKey v s"
| "perform (EditLanguageCode v) s = onChange_languageCode v s"

fun run :: "action list \<Rightarrow> plugin \<Rightarrow> plugin \<times> event list" where
  "run [] s = (s, [])"
| "run (a # as) s =
     (case perform a s of (s1, ev1) \<Rightarrow> (case run as s1 of (s2, ev2) \<Rightarrow> (s2, ev1 @ ev2)))"

section \<open>The callbacks, one await at a time\<close>

text \<open>
  The host runs one callback at a time, and a callback runs until it returns or reaches an
  \<^verbatim>\<open>await\<close> on a host call; the code behind the \<^verbatim>\<open>await\<close> is a callback of its own, run
  when the host call settles. Between the two, any other callback of the plugin may run.
  This part gives every such stretch of \<open>startRecording\<close>, \<open>handleStop\<close>,
  \<open>transcribeAudio\<close> and \<open>cleanText\<close> as a step of a machine whose state is the plugin
  together with the calls that are still awaited.
\<close>

subsection \<open>Reading a decoded body\<close>

text \<open>
  What the conversions of the language answer where the program may ask for them on a
  value that is neither \<^verbatim>\<open>undefined\<close>, \<^verbatim>\<open>null\<close>, a boolean, a number (for \<^verbatim>\<open>> 0\<close>) nor a
  string (for the template): \<open>number_gt_zero v\<close> is the outcome of \<^verbatim>\<open>v > 0\<close> for a string,
  an array or an object \<open>v\<close>, and \<open>template_text v\<close> the text that a template literal makes
  of a number, an array or an object \<open>v\<close>. Either may throw; the error is the host's.
\<close>

record js_engine =
  number_gt_zero :: "json \<Rightarrow> nat + bool"
  template_text :: "json \<Rightarrow> nat + string"

text \<open>The five properties the program reads, with their names.\<close>

datatype property = Results | Length | First | Alternatives | Transcript

fun property_name :: "property \<Rightarrow> string" where
  "property_name Results = ''results''"
| "property_name Length = ''length''"
| "property_name First = ''0''"
| "property_name Alternatives = ''alternatives''"
| "property_name Transcript = ''transcript''"

text \<open>
  \<^verbatim>\<open>v.p\<close> and \<^verbatim>\<open>v[0]\<close>: a \<^verbatim>\<open>TypeError\<close> on \<^verbatim>\<open>undefined\<close> and \<^verbatim>\<open>null\<close>; the length and
  the first element of an array or a string; a property of an object's own; otherwise
  \<^verbatim>\<open>undefined\<close>.
\<close>

fun js_get :: "js_value \<Rightarrow> property \<Rightarrow> js_error + js_value" where
  "js_get None p = Inl TypeError"
| "js_get (Some JNull) p = Inl TypeError"
| "js_get (Some (JBool b)) p = Inr None"
| "js_get (Some (JNumber n)) p = Inr None"
| "js_get (Some (JString s)) p =
     Inr (case p of
            Length \<Rightarrow> Some (JNumber (Finite (of_nat (length s))))
          | First \<Rightarrow> (case s of [] \<Rightarrow> None | c # _ \<Rightarrow> Some (JString [c]))
          | _ \<Rightarrow> None)"
| "js_get (Some (JArray xs)) p =
     Inr (case p of
            Length \<Rightarrow> Some (JNumber (Finite (of_nat (length xs))))
          | First \<Rightarrow> (case xs of [] \<Rightarrow> None | x # _ \<Rightarrow> Some x)
          | _ \<Rightarrow> None)"
| "js_get (Some (JObject kvs)) p = Inr (map_of kvs (property_name p))"

text \<open>The left operand of \<^verbatim>\<open>&&\<close> as a condition.\<close>

fun truthy :: "js_value \<Rightarrow> bool" where
  "truthy None = False"
| "truthy (Some JNull) = False"
| "truthy (Some (JBool b)) = b"
| "truthy (Some (JNumber n)) = (n \<noteq> Finite 0)"
| "truthy (Some (JString s)) = (s \<noteq> [])"
| "truthy (Some (JArray xs)) = True"
| "truthy (Some (JObject kvs)) = True"

text \<open>\<^verbatim>\<open>v > 0\<close>: \<^verbatim>\<open>undefined\<close> is not a number, \<^verbatim>\<open>null\<close> is 0, \<^verbatim>\<open>true\<close> is 1.\<close>

fun greater_zero :: "js_engine \<Rightarrow> js_value \<Rightarrow> js_error + bool" where
  "greater_zero eng None = Inr False"
| "greater_zero eng (Some JNull) = Inr False"
| "greater_zero eng (Some (JBool b)) = Inr b"
| "greater_zero eng (Some (JNumber (Finite r))) = Inr (0 < r)"
| "greater_zero eng (Some (JNumber PlusInfinity)) = Inr True"
| "greater_zero eng (Some (JNumber MinusInfinity)) = Inr False"
| "greater_zero eng (Some v) =
     (case number_gt_zero eng v of Inl err \<Rightarrow> Inl (HostError err) | Inr b \<Rightarrow> Inr b)"

text \<open>An evaluation that may throw, followed by one that uses its value.\<close>

definition and_then :: "js_error + 'a \<Rightarrow> ('a \<Rightarrow> js_error + 'b) \<Rightarrow> js_error + 'b" where
  "and_then r f = (case r of Inl err \<Rightarrow> Inl err | Inr v \<Rightarrow> f v)"

text \<open>\<^verbatim>\<open>data.results[0].alternatives[0].transcript\<close>\<close>

definition first_transcript :: "js_value \<Rightarrow> js_error + js_value" where
  "first_transcript rs =
     and_then (js_get rs First) (\<lambda>r.
     and_then (js_get r Alternatives) (\<lambda>alts.
     and_then (js_get alts First) (\<lambda>a.
     js_get a Transcript)))"

text \<open>
  Lines 117 to 121, inside the \<^verbatim>\<open>try\<close>: the value the promise is resolved with, or the
  value it is rejected with, either by \<^verbatim>\<open>reject('No transcript found')\<close> or by the
  \<^verbatim>\<open>catch\<close> of an error thrown on the way.
\<close>

definition read_results :: "js_engine \<Rightarrow> json \<Rightarrow> js_error + js_value" where
  "read_results eng data =
     and_then (js_get (Some data) Results) (\<lambda>rs.
       if \<not> truthy rs then Inl (StringValue ''No transcript found'')
       else
         and_then (js_get rs Length) (\<lambda>len.
         and_then (greater_zero eng len) (\<lambda>positive.
           if positive then first_transcript rs
           else Inl (StringValue ''No transcript found''))))"

text \<open>The template literal's \<^verbatim>\<open>${text}\<close>.\<close>

fun interpolate :: "js_engine \<Rightarrow> js_value \<Rightarrow> js_error + string" where
  "interpolate eng None = Inr ''undefined''"
| "interpolate eng (Some JNull) = Inr ''null''"
| "interpolate eng (Some (JBool b)) = Inr (if b then ''true'' else ''false'')"
| "interpolate eng (Some (JString s)) = Inr s"
| "interpolate eng (Some v) =
     (case template_text eng v of Inl err \<Rightarrow> Inl (HostError err) | Inr t \<Rightarrow> Inr t)"

subsection \<open>What the host answers\<close>

text \<open>
  \<^verbatim>\<open>reader.result\<close> when \<open>onloadend\<close> runs: \<^verbatim>\<open>null\<close> after a failed read, otherwise the
  data URL.
\<close>

datatype read_outcome = ReadError | ReadResult string

datatype fetch_reply = FetchFailed nat | FetchResponse nat

datatype json_reply = JsonFailed nat | JsonValue json

text \<open>How a promise ends, if it does.\<close>

datatype 'a settlement = NeverSettles | Rejects js_error | Resolves 'a

subsection \<open>The stretches of code between the awaits\<close>

text \<open>\<open>startRecording\<close> behind \<^verbatim>\<open>await getUserMedia\<close> (lines 54 to 65).\<close>

fun startRecording_resume :: "media_outcome \<Rightarrow> plugin \<Rightarrow> plugin \<times> event list" where
  "startRecording_resume (GetUserMediaRejects err) s = (s, microphone_error err)"
| "startRecording_resume (ConstructorThrows stream err) s = (s, microphone_error err)"
| "startRecording_resume (StartThrows stream err) s =
     (s\<lparr>mediaRecorder := Some \<lparr>rec_stream = stream, rec_state = inactive\<rparr>\<rparr>,
      NewMediaRecorder stream # microphone_error err)"
| "startRecording_resume (Captures stream) s =
     (s\<lparr>mediaRecorder := Some \<lparr>rec_stream = stream, rec_state = recording\<rparr>,
        isRecording := True\<rparr>,
      [NewMediaRecorder stream, RecorderStart, Notice ''Recording started...''])"

text \<open>
  \<open>handleStop\<close> up to its first \<^verbatim>\<open>await\<close> (lines 77 to 79), which takes it through
  \<open>transcribeAudio\<close> up to the return of the promise (lines 94 to 96).
\<close>

definition handleStop_call :: "plugin \<Rightarrow> event list" where
  "handleStop_call s = [CallTranscribeAudio (audioBlob s), ReadAsDataURL (audioBlob s)]"

text \<open>\<^verbatim>\<open>s.split(',')[1]\<close>\<close>

definition second_field :: "string \<Rightarrow> string option" where
  "second_field s =
     (case dropWhile (\<lambda>c. c \<noteq> CHR '','') s of
        [] \<Rightarrow> None
      | _ # rest \<Rightarrow> Some (takeWhile (\<lambda>c. c \<noteq> CHR '','') rest))"

definition post_recognize :: "plugin \<Rightarrow> string option \<Rightarrow> recognize_call" where
  "post_recognize s base64Audio =
     \<lparr>call_url = recognize_url (googleApiKey (settings s)),
      call_encoding = ''WEBM_OPUS'',
      call_sampleRateHertz = 48000,
      call_languageCode = languageCode (settings s),
      call_content = base64Audio\<rparr>"

text \<open>
  The \<open>onloadend\<close> callback up to \<^verbatim>\<open>await fetch\<close> (lines 97 to 115). Line 98 stands
  before the \<^verbatim>\<open>try\<close>: when the read failed, \<^verbatim>\<open>reader.result\<close> is \<^verbatim>\<open>null\<close>, the callback
  throws there, nothing calls \<^verbatim>\<open>resolve\<close> or \<^verbatim>\<open>reject\<close>, and no request is sent
  (\<open>None\<close>).
\<close>

definition onloadend :: "read_outcome \<Rightarrow> plugin \<Rightarrow> event list option" where
  "onloadend r s =
     (case r of
        ReadError \<Rightarrow> None
      | ReadResult url \<Rightarrow> Some [FetchRecognize (post_recognize s (second_field url))])"

text \<open>
  \<open>handleStop\<close> from a rejected \<^verbatim>\<open>await\<close> to its end: the \<^verbatim>\<open>catch\<close> and the
  \<^verbatim>\<open>finally\<close> (lines 85 to 90).
\<close>

definition handleStop_throws :: "js_error \<Rightarrow> plugin \<Rightarrow> plugin \<times> event list" where
  "handleStop_throws error s =
     (s\<lparr>audioChunks := []\<rparr>, handleStop_catch (Some error) @ [ClearChunks])"

text \<open>
  \<open>handleStop\<close> from the resolved \<^verbatim>\<open>await this.cleanText\<close> to its end (lines 81 to 84 and
  the \<^verbatim>\<open>finally\<close>).
\<close>

definition handleStop_delivers :: "bool \<Rightarrow> string \<Rightarrow> plugin \<Rightarrow> plugin \<times> event list" where
  "handleStop_delivers editor cleanedText s =
     (s\<lparr>audioChunks := []\<rparr>,
      (if editor then [ReplaceSelection cleanedText] else []) @ [ClearChunks])"

text \<open>
  \<open>cleanText\<close> up to \<^verbatim>\<open>await model.generateContent\<close> (lines 130 to 135): the error it
  throws, or the request it sends.
\<close>

definition cleanText_call :: "js_engine \<Rightarrow> js_value \<Rightarrow> plugin \<Rightarrow> js_error + event list" where
  "cleanText_call eng text s =
     (case genAI s of
        None \<Rightarrow> Inl (ErrorObject ''Generative AI not initialized.'')
      | Some ai \<Rightarrow>
          and_then (interpolate eng text) (\<lambda>t.
            Inr [GenerateContent ai ''gemini-pro'' (instruction @ t)]))"

text \<open>
  The promise of \<open>transcribeAudio\<close> as a whole (lines 93 to 127), from what the reader,
  \<^verbatim>\<open>fetch\<close> and \<^verbatim>\<open>response.json()\<close> answer; the last is only asked after a response.
\<close>

definition transcribeAudio_promise ::
    "js_engine \<Rightarrow> read_outcome \<Rightarrow> fetch_reply \<Rightarrow> json_reply \<Rightarrow> js_value settlement" where
  "transcribeAudio_promise eng r f j =
     (case r of
        ReadError \<Rightarrow> NeverSettles
      | ReadResult url \<Rightarrow>
          (case f of
             FetchFailed err \<Rightarrow> Rejects (HostError err)
           | FetchResponse status \<Rightarrow>
               (case j of
                  JsonFailed err \<Rightarrow> Rejects (HostError err)
                | JsonValue data \<Rightarrow>
                    (case read_results eng data of
                       Inl err \<Rightarrow> Rejects err
                     | Inr text \<Rightarrow> Resolves text))))"

subsection \<open>The machine\<close>

text \<open>
  Where a run of \<open>handleStop\<close> stands: at one of its four awaits, never to be resumed
  (\<open>Hung\<close>), or returned (\<open>Settled\<close>). The runs are numbered in the order of the stop
  events that started them. The calls of \<open>startRecording\<close> that await the microphone are
  only counted, as they hold no data of their own.
\<close>

datatype run_state = AwaitRead | AwaitFetch | AwaitJson | AwaitGenerate | Hung | Settled

record system =
  plug :: plugin
  starting :: nat
  runs :: "run_state list"

text \<open>
  What the host does next: a click on the ribbon icon, the microphone request of some call
  of \<open>startRecording\<close> settling, a chunk or the stop event of a recorder, one of the four
  awaits of run \<open>n\<close> settling (the last together with whether an editor is active then), or
  an edit of a setting.
\<close>

datatype host_event =
    Clicked
  | MediaSettled media_outcome
  | ChunkArrived blob
  | RecorderStopped
  | ReadSettled nat read_outcome
  | FetchSettled nat fetch_reply
  | JsonSettled nat json_reply
  | GenerateSettled nat generate_outcome bool
  | GoogleApiKeyEdited string
  | GeminiApiKeyEdited string
  | LanguageCodeEdited string

definition awaiting :: "system \<Rightarrow> nat \<Rightarrow> run_state \<Rightarrow> bool" where
  "awaiting sys n st = (n < length (runs sys) \<and> runs sys ! n = st)"

text \<open>An effect is paired with the run that performed it, if a run did.\<close>

definition tag :: "nat option \<Rightarrow> event list \<Rightarrow> (nat option \<times> event) list" where
  "tag l evs = map (Pair l) evs"

definition outside :: "system \<Rightarrow> plugin \<times> event list \<Rightarrow> (system \<times> (nat option \<times> event) list) option" where
  "outside sys r = Some (sys\<lparr>plug := fst r\<rparr>, tag None (snd r))"

definition suspends :: "system \<Rightarrow> nat \<Rightarrow> run_state \<Rightarrow> event list \<Rightarrow> (system \<times> (nat option \<times> event) list) option" where
  "suspends sys n st evs = Some (sys\<lparr>runs := (runs sys)[n := st]\<rparr>, tag (Some n) evs)"

definition returns :: "system \<Rightarrow> nat \<Rightarrow> plugin \<times> event list \<Rightarrow> (system \<times> (nat option \<times> event) list) option" where
  "returns sys n r =
     Some (sys\<lparr>plug := fst r, runs := (runs sys)[n := Settled]\<rparr>, tag (Some n) (snd r))"

text \<open>
  One step. \<open>None\<close>: the host cannot do this now (no call awaits the microphone, no
  recorder exists, run \<open>n\<close> is not at this await). Nothing else is assumed of the host:
  a chunk or a stop event may come from any recorder at any time, and the awaits may settle
  in any order.
\<close>

fun step :: "js_engine \<Rightarrow> host_event \<Rightarrow> system \<Rightarrow> (system \<times> (nat option \<times> event) list) option" where
  "step eng Clicked sys =
     (if isRecording (plug sys) then outside sys (stopRecording (plug sys))
      else Some (sys\<lparr>starting := Suc (starting sys)\<rparr>, [(None, GetUserMedia)]))"
| "step eng (MediaSettled m) sys =
     (if starting sys = 0 then None
      else outside (sys\<lparr>starting := starting sys - 1\<rparr>) (startRecording_resume m (plug sys)))"
| "step eng (ChunkArrived data) sys =
     (if mediaRecorder (plug sys) = None then None
      else outside sys (ondataavailable data (plug sys), []))"
| "step eng RecorderStopped sys =
     (if mediaRecorder (plug sys) = None then None
      else Some (sys\<lparr>runs := runs sys @ [AwaitRead]\<rparr>,
                 tag (Some (length (runs sys))) (handleStop_call (plug sys))))"
| "step eng (ReadSettled n r) sys =
     (if \<not> awaiting sys n AwaitRead then None
      else (case onloadend r (plug sys) of
              None \<Rightarrow> suspends sys n Hung []
            | Some evs \<Rightarrow> suspends sys n AwaitFetch evs))"
| "step eng (FetchSettled n f) sys =
     (if \<not> awaiting sys n AwaitFetch then None
      else (case f of
              FetchFailed err \<Rightarrow> returns sys n (handleStop_throws (HostError err) (plug sys))
            | FetchResponse status \<Rightarrow> suspends sys n AwaitJson []))"
| "step eng (JsonSettled n j) sys =
     (if \<not> awaiting sys n AwaitJson then None
      else (case j of
              JsonFailed err \<Rightarrow> returns sys n (handleStop_throws (HostError err) (plug sys))
            | JsonValue data \<Rightarrow>
                (case read_results eng data of
                   Inl err \<Rightarrow> returns sys n (handleStop_throws err (plug sys))
                 | Inr text \<Rightarrow>
                     (case cleanText_call eng text (plug sys) of
                        Inl err \<Rightarrow>
                          returns sys n
                            (fst (handleStop_throws err (plug sys)),
                             CallCleanTextWith text # snd (handleStop_throws err (plug sys)))
                      | Inr evs \<Rightarrow> suspends sys n AwaitGenerate (CallCleanTextWith text # evs)))))"
| "step eng (GenerateSettled n g editor) sys =
     (if \<not> awaiting sys n AwaitGenerate then None
      else (case g of
              GenerateRejects err \<Rightarrow> returns sys n (handleStop_throws (HostError err) (plug sys))
            | GenerateResponds r \<Rightarrow>
                (case r of
                   TextThrows err \<Rightarrow> returns sys n (handleStop_throws (HostError err) (plug sys))
                 | TextReturns cleanedText \<Rightarrow>
                     returns sys n (handleStop_delivers editor cleanedText (plug sys)))))"
| "step eng (GoogleApiKeyEdited v) sys = outside sys (onChange_googleApiKey v (plug sys))"
| "step eng (GeminiApiKeyEdited v) sys = outside sys (onChange_geminiApiKey v (plug sys))"
| "step eng (LanguageCodeEdited v) sys = outside sys (onChange_languageCode v (plug sys))"

fun exec :: "js_engine \<Rightarrow> host_event list \<Rightarrow> system \<Rightarrow> (system \<times> (nat option \<times> event) list) option" where
  "exec eng [] sys = Some (sys, [])"
| "exec eng (ev # evs) sys =
     (case step eng ev sys of
        None \<Rightarrow> None
      | Some (sys1, effs1) \<Rightarrow>
          (case exec eng evs sys1 of
             None \<Rightarrow> None
           | Some (sys2, effs2) \<Rightarrow> Some (sys2, effs1 @ effs2)))"

section \<open>The vocabulary of the properties\<close>

subsection \<open>Predicates\<close>

fun starts_capture :: "event \<Rightarrow> bool" where
  "starts_capture GetUserMedia = True"
| "starts_capture (NewMediaRecorder _) = True"
| "starts_capture RecorderStart = True"
| "starts_capture _ = False"

fun is_refinement :: "event \<Rightarrow> bool" where
  "is_refinement (CallCleanText _) = True"
| "is_refinement (GenerateContent _ _ _) = True"
| "is_refinement _ = False"

fun is_delivery :: "event \<Rightarrow> bool" where
  "is_delivery (ReplaceSelection _) = True"
| "is_delivery _ = False"

definition transcription :: "env \<Rightarrow> plugin \<Rightarrow> js_error + string" where
  "transcription e s = fst (transcribeAudio (fetch_result e) s (audioBlob s))"

definition refinement :: "env \<Rightarrow> plugin \<Rightarrow> string \<Rightarrow> js_error + string" where
  "refinement e s rawText = fst (cleanText (generate_result e) s rawText)"

definition key_at_load :: "saved_data option \<Rightarrow> string" where
  "key_at_load saved = geminiApiKey (object_assign DEFAULT_SETTINGS saved)"

subsection \<open>Concrete states and outcomes\<close>

definition loaded :: plugin where
  "loaded = fst (onload None new_plugin)"

definition capturing :: plugin where
  "capturing = fst (toggleRecording (Captures 1) loaded)"

definition processing :: plugin where
  "processing = fst (toggleRecording (Captures 1) capturing)"

definition saved_keys :: saved_data where
  "saved_keys = \<lparr>saved_googleApiKey = Some ''g'', saved_geminiApiKey = Some ''k'',
     saved_languageCode = None\<rparr>"

definition configured :: plugin where
  "configured = fst (onload (Some saved_keys) new_plugin)"

definition edited :: plugin where
  "edited = fst (onChange_geminiApiKey ''k'' loaded)"

definition cleared :: plugin where
  "cleared = fst (onChange_geminiApiKey [] configured)"

definition seg1 :: blob where
  "seg1 = \<lparr>blob_bytes = [1, 2], blob_type = ''audio/webm;codecs=opus''\<rparr>"

definition seg2 :: blob where
  "seg2 = \<lparr>blob_bytes = [3], blob_type = ''audio/webm;codecs=opus''\<rparr>"

definition recorded :: plugin where
  "recorded =
     fst (run [Click (Captures 1), DataAvailable seg1, DataAvailable seg2, Click (Captures 1)]
            configured)"

definition heard :: fetch_outcome where
  "heard = FetchResponds 200
     (JsonData \<lparr>results = Some [\<lparr>alternatives = Some [\<lparr>transcript = ''test phrase''\<rparr>]\<rparr>]\<rparr>)"

definition env_error_status :: env where
  "env_error_status = \<lparr>fetch_result = FetchResponds 400 (JsonData \<lparr>results = None\<rparr>),
     generate_result = GenerateRejects 0, activeEditor = True\<rparr>"

definition env_refine_fails :: env where
  "env_refine_fails = \<lparr>fetch_result = heard, generate_result = GenerateRejects 7,
     activeEditor = True\<rparr>"

definition env_no_editor :: env where
  "env_no_editor = \<lparr>fetch_result = heard,
     generate_result = GenerateResponds (TextReturns ''Test phrase.''), activeEditor = False\<rparr>"

definition env_editor :: env where
  "env_editor = \<lparr>fetch_result = heard,
     generate_result = GenerateResponds (TextReturns ''Test phrase.''), activeEditor = True\<rparr>"

subsection \<open>Predicates on the runs of the machine\<close>

definition settled :: "system \<Rightarrow> nat \<Rightarrow> bool" where
  "settled sys n = awaiting sys n Settled"

text \<open>The effects of run \<open>n\<close> among those of an execution, in order.\<close>

definition effects_of :: "nat \<Rightarrow> (nat option \<times> event) list \<Rightarrow> event list" where
  "effects_of n effs = map snd (filter (\<lambda>le. fst le = Some n) effs)"

text \<open>
  What a step may do to run \<open>n\<close>: a settled run stays settled and does nothing more; a
  run that settles in this step clears the chunks exactly once, as the last thing it does;
  a run that is not settled after the step has not cleared them in it.
\<close>

definition run_step_ok :: "nat \<Rightarrow> system \<Rightarrow> system \<Rightarrow> (nat option \<times> event) list \<Rightarrow> bool" where
  "run_step_ok n sys sys' effs =
     ((settled sys n \<longrightarrow> settled sys' n \<and> effects_of n effs = [])
      \<and> (\<not> settled sys n \<and> settled sys' n \<longrightarrow>
           count_list (effects_of n effs) ClearChunks = 1
           \<and> last (effects_of n effs) = ClearChunks
           \<and> audioChunks (plug sys') = [])
      \<and> (\<not> settled sys' n \<longrightarrow> ClearChunks \<notin> set (effects_of n effs)))"

text \<open>The chunks that arrive in a sequence of host events, in order.\<close>

fun arrivals :: "host_event list \<Rightarrow> blob list" where
  "arrivals [] = []"
| "arrivals (ChunkArrived data # evs) = data # arrivals evs"
| "arrivals (_ # evs) = arrivals evs"

text \<open>The host events that start or resume a run of \<open>handleStop\<close>.\<close>

fun of_run :: "host_event \<Rightarrow> bool" where
  "of_run RecorderStopped = True"
| "of_run (ReadSettled _ _) = True"
| "of_run (FetchSettled _ _) = True"
| "of_run (JsonSettled _ _) = True"
| "of_run (GenerateSettled _ _ _) = True"
| "of_run _ = False"

text \<open>The two ways the program reports an error to the user and the console.\<close>

fun is_report :: "event \<Rightarrow> bool" where
  "is_report (Notice _) = True"
| "is_report (ConsoleError _ _) = True"
| "is_report _ = False"

subsection \<open>Concrete machines and answers\<close>

text \<open>
  An engine for the concrete executions below. None of them reaches a conversion, so its
  two answers are never used.
\<close>

definition some_engine :: js_engine where
  "some_engine = \<lparr>number_gt_zero = (\<lambda>v. Inr False), template_text = (\<lambda>v. Inr [])\<rparr>"

definition loaded_system :: system where
  "loaded_system = \<lparr>plug = loaded, starting = 0, runs = []\<rparr>"

definition configured_system :: system where
  "configured_system = \<lparr>plug = configured, starting = 0, runs = []\<rparr>"

text \<open>The data URL of the two bytes of \<open>seg1\<close>, and of the three bytes of both chunks.\<close>

definition url12 :: string where
  "url12 = ''data:audio/webm;base64,AQI=''"

definition url123 :: string where
  "url123 = ''data:audio/webm;base64,AQID''"

text \<open>A body as the service sends it with an error status, and one with a transcript.\<close>

definition error_body :: json where
  "error_body =
     JObject [(''error'', JObject [(''code'', JNumber (Finite 403)),
       (''message'', JString ''The request is missing a valid API key.'')])]"

definition heard_body :: json where
  "heard_body =
     JObject [(''results'', JArray [JObject [(''alternatives'',
       JArray [JObject [(''transcript'', JString ''test phrase'')]])]])]"

text \<open>
  One recording from click to click on the configured plugin, its chunks arriving when the
  recorder is stopped, and the run of the pipeline that delivers the refined text.
\<close>

definition one_recording :: "host_event list" where
  "one_recording =
     [Clicked, MediaSettled (Captures 1), Clicked, ChunkArrived seg1, ChunkArrived seg2,
      RecorderStopped]"

definition one_delivery :: "host_event list" where
  "one_delivery =
     [ReadSettled 0 (ReadResult url123), FetchSettled 0 (FetchResponse 200),
      JsonSettled 0 (JsonValue heard_body),
      GenerateSettled 0 (GenerateResponds (TextReturns ''Test phrase.'')) True]"

text \<open>
  A second recording is started, by two clicks, while the first run awaits the recognition
  service; then the service fails.
\<close>

definition restart_while_processing :: "host_event list" where
  "restart_while_processing =
     [Clicked, MediaSettled (Captures 1), Clicked, ChunkArrived seg1, RecorderStopped,
      ReadSettled 0 (ReadResult url12), Clicked, MediaSettled (Captures 2),
      FetchSettled 0 (FetchFailed 5)]"

text \<open>
  A second recording of one chunk is made and stopped while the first run awaits the
  recognition service.
\<close>

definition second_period :: "host_event list" where
  "second_period = [MediaSettled (Captures 2), Clicked, ChunkArrived seg2]"

definition record_again_while_processing :: "host_event list" where
  "record_again_while_processing =
     [Clicked, MediaSettled (Captures 1), Clicked, ChunkArrived seg1, RecorderStopped,
      ReadSettled 0 (ReadResult url12), Clicked] @ second_period @ [RecorderStopped]"

text \<open>
  The machine after \<open>one_recording\<close> on the configured plugin, the same when its run
  awaits the generative service, and when the run has delivered.
\<close>

definition recorded_system :: system where
  "recorded_system = \<lparr>plug = recorded, starting = 0, runs = [AwaitRead]\<rparr>"

definition generating_system :: system where
  "generating_system = \<lparr>plug = recorded, starting = 0, runs = [AwaitGenerate]\<rparr>"

definition delivered_system :: system where
  "delivered_system = \<lparr>plug = recorded\<lparr>audioChunks := []\<rparr>, starting = 0, runs = [Settled]\<rparr>"

definition delivery_effects :: "(nat option \<times> event) list" where
  "delivery_effects =
     [(Some 0, FetchRecognize
        \<lparr>call_url = ''https://speech.googleapis.com/v1/speech:recognize?key=g'',
         call_encoding = ''WEBM_OPUS'', call_sampleRateHertz = 48000,
         call_languageCode = ''en-US'', call_content = Some ''AQID''\<rparr>),
      (Some 0, CallCleanTextWith (Some (JString ''test phrase''))),
      (Some 0, GenerateContent (GoogleGenerativeAI ''k'') ''gemini-pro''
        (instruction @ ''test phrase'')),
      (Some 0, ReplaceSelection ''Test phrase.''),
      (Some 0, ClearChunks)]"

text \<open>
  The machine when the first recording of \<open>record_again_while_processing\<close> awaits the
  recognition service and the ribbon has been clicked again, and after \<open>second_period\<close>.
\<close>

definition first_pending :: system where
  "first_pending =
     \<lparr>plug = loaded\<lparr>mediaRecorder := Some \<lparr>rec_stream = 1, rec_state = inactive\<rparr>,
        audioChunks := [seg1]\<rparr>,
      starting = 1, runs = [AwaitFetch]\<rparr>"

definition second_stopped :: system where
  "second_stopped =
     \<lparr>plug = loaded\<lparr>mediaRecorder := Some \<lparr>rec_stream = 2, rec_state = inactive\<rparr>,
        audioChunks := [seg1, seg2]\<rparr>,
      starting = 0, runs = [AwaitFetch]\<rparr>"

definition second_period_effects :: "(nat option \<times> event) list" where
  "second_period_effects =
     [(None, NewMediaRecorder 2), (None, RecorderStart), (None, Notice ''Recording started...''),
      (None, RecorderStop), (None, Notice ''Recording stopped.'')]"

subsection \<open>The first part inside the second\<close>

text \<open>A response of the documented shape as the value it decodes to.\<close>

definition alternative_json :: "alternative \<Rightarrow> json" where
  "alternative_json a = JObject [(''transcript'', JString (transcript a))]"

definition result_json :: "recognition_result \<Rightarrow> json" where
  "result_json r =
     JObject (case alternatives r of
                None \<Rightarrow> []
              | Some as \<Rightarrow> [(''alternatives'', JArray (map alternative_json as))])"

definition data_json :: "recognition_data \<Rightarrow> json" where
  "data_json d =
     JObject (case results d of
                None \<Rightarrow> []
              | Some rs \<Rightarrow> [(''results'', JArray (map result_json rs))])"

text \<open>
  The host events that answer the awaits of run \<open>n\<close> with the outcomes of \<open>e\<close>, after a
  read that gave \<open>url\<close>.
\<close>

definition replies :: "nat \<Rightarrow> string \<Rightarrow> env \<Rightarrow> host_event list" where
  "replies n url e =
     ReadSettled n (ReadResult url)
     # (case fetch_result e of
          FetchRejects err \<Rightarrow> [FetchSettled n (FetchFailed err)]
        | FetchResponds status body \<Rightarrow>
            [FetchSettled n (FetchResponse status),
             JsonSettled n
               (case body of
                  JsonRejects err \<Rightarrow> JsonFailed err
                | JsonData d \<Rightarrow> JsonValue (data_json d))])
     @ [GenerateSettled n (generate_result e) (activeEditor e)]"

text \<open>
  The effects that both parts give in the same form: all but the read, the recognition
  request and the entry of \<open>cleanText\<close>.
\<close>

fun in_both_parts :: "event \<Rightarrow> bool" where
  "in_both_parts (ReadAsDataURL _) = False"
| "in_both_parts (FetchRecognize _) = False"
| "in_both_parts (Fetch _) = False"
| "in_both_parts (CallCleanText _) = False"
| "in_both_parts (CallCleanTextWith _) = False"
| "in_both_parts _ = True"

section \<open>Properties\<close>

subsection \<open>Shared facts\<close>

lemma transcribeAudio_events:
  "snd (transcribeAudio f s b) = [CallTranscribeAudio b, Fetch (recognize_body s b)]"
  by (simp add: transcribeAudio_def)

lemma cleanText_events:
  "snd (cleanText g s t) =
     (case genAI s of
        None \<Rightarrow> [CallCleanText t]
      | Some ai \<Rightarrow> [CallCleanText t, GenerateContent ai ''gemini-pro'' (instruction @ t)])"
  by (simp add: cleanText_def split: option.splits)

lemma stopRecording_flag: "mediaRecorder s \<noteq> None \<Longrightarrow> \<not> isRecording (fst (stopRecording s))"
  by (auto simp: stopRecording_def split: option.splits)

lemma handleStop_state: "fst (handleStop e s) = s\<lparr>audioChunks := []\<rparr>"
  by (simp add: handleStop_def split: prod.splits)

lemma handleStop_events:
  "snd (handleStop e s) =
     snd (handleStop_try e s (audioBlob s)) @ handleStop_catch (fst (handleStop_try e s (audioBlob s)))
     @ [ClearChunks]"
  by (simp add: handleStop_def split: prod.splits)

text \<open>The three ways through the \<^verbatim>\<open>try\<close> block.\<close>

lemma transcribeAudio_pair:
  "transcribeAudio (fetch_result e) s (audioBlob s) =
     (transcription e s, [CallTranscribeAudio (audioBlob s), Fetch (recognize_body s (audioBlob s))])"
  by (simp add: transcription_def transcribeAudio_def)

lemma handleStop_try_transcription_fails:
  assumes "transcription e s = Inl err"
  shows "handleStop_try e s (audioBlob s) =
     (Some err, [CallTranscribeAudio (audioBlob s), Fetch (recognize_body s (audioBlob s))])"
  using assms by (simp add: handleStop_try_def transcribeAudio_pair)

lemma handleStop_try_refinement_fails:
  assumes "transcription e s = Inr t" and "refinement e s t = Inl err"
  shows "handleStop_try e s (audioBlob s) =
     (Some err, [CallTranscribeAudio (audioBlob s), Fetch (recognize_body s (audioBlob s))]
        @ snd (cleanText (generate_result e) s t))"
proof -
  obtain r ev where c: "cleanText (generate_result e) s t = (r, ev)"
    by (cases "cleanText (generate_result e) s t")
  with assms(2) have "r = Inl err"
    by (simp add: refinement_def)
  with assms(1) c show ?thesis
    by (simp add: handleStop_try_def transcribeAudio_pair)
qed

lemma handleStop_try_succeeds:
  assumes "transcription e s = Inr t" and "refinement e s t = Inr c"
  shows "handleStop_try e s (audioBlob s) =
     (None, [CallTranscribeAudio (audioBlob s), Fetch (recognize_body s (audioBlob s))]
        @ snd (cleanText (generate_result e) s t)
        @ (if activeEditor e then [ReplaceSelection c] else []))"
proof -
  obtain r ev where p: "cleanText (generate_result e) s t = (r, ev)"
    by (cases "cleanText (generate_result e) s t")
  with assms(2) have "r = Inr c"
    by (simp add: refinement_def)
  with assms(1) p show ?thesis
    by (simp add: handleStop_try_def transcribeAudio_pair)
qed

lemma handleStop_try_no_clear: "ClearChunks \<notin> set (snd (handleStop_try e s b))"
  by (auto simp: handleStop_try_def transcribeAudio_def cleanText_def
      split: prod.splits sum.splits option.splits)

lemma handleStop_catch_no_clear: "ClearChunks \<notin> set (handleStop_catch t)"
  by (auto simp: handleStop_catch_def split: option.splits)

lemma handleStop_clears_once:
  "count_list (snd (handleStop e s)) ClearChunks = 1 \<and> last (snd (handleStop e s)) = ClearChunks"
  by (simp add: handleStop_events handleStop_try_no_clear handleStop_catch_no_clear)

lemma filter_cleanText_delivery: "filter is_delivery (snd (cleanText g s t)) = []"
  by (simp add: cleanText_events split: option.splits)

lemma filter_cleanText_report: "filter is_report (snd (cleanText g s t)) = []"
  by (simp add: cleanText_events split: option.splits)

lemma filter_catch_delivery: "filter is_delivery (handleStop_catch t) = []"
  by (simp add: handleStop_catch_def split: option.splits)

lemma filter_catch_refinement: "filter is_refinement (handleStop_catch t) = []"
  by (simp add: handleStop_catch_def split: option.splits)

lemma startRecording_genAI: "genAI (fst (startRecording m s)) = genAI s"
  by (cases m) simp_all

lemma perform_genAI: "genAI (fst (perform a s)) = genAI s"
  by (cases a)
     (simp_all add: toggleRecording_def stopRecording_def startRecording_genAI ondataavailable_def
        handleStop_state onChange_googleApiKey_def onChange_geminiApiKey_def
        onChange_languageCode_def Let_def split: option.splits)

lemma run_genAI: "genAI (fst (run acts s)) = genAI s"
proof (induction acts arbitrary: s)
  case Nil
  show ?case by simp
next
  case (Cons a acts)
  obtain s1 ev1 where p: "perform a s = (s1, ev1)"
    by (cases "perform a s")
  obtain s2 ev2 where r: "run acts s1 = (s2, ev2)"
    by (cases "run acts s1")
  have "genAI s1 = genAI s"
    using perform_genAI [of a s] p by simp
  moreover have "genAI s2 = genAI s1"
    using Cons.IH [of s1] r by simp
  ultimately show ?case
    by (simp add: p r)
qed

lemma onload_genAI:
  "genAI (fst (onload saved new_plugin)) =
     (if key_at_load saved = [] then None else Some (GoogleGenerativeAI (key_at_load saved)))"
  by (simp add: onload_def loadSettings_def key_at_load_def new_plugin_def Let_def)

lemma run_DataAvailable:
  "run (map DataAvailable segs) s = (s\<lparr>audioChunks := audioChunks s @ segs\<rparr>, [])"
proof (induction segs arbitrary: s)
  case Nil
  show ?case by simp
next
  case (Cons d segs)
  show ?case
    by (simp add: Cons.IH ondataavailable_def)
qed

lemma run_append:
  "run (as @ bs) s =
     (case run as s of (s1, ev1) \<Rightarrow> (case run bs s1 of (s2, ev2) \<Rightarrow> (s2, ev1 @ ev2)))"
  by (induction as arbitrary: s) (simp_all split: prod.splits)

text \<open>The concrete states, field by field.\<close>

lemma loaded_fields:
  "loaded = \<lparr>settings = \<lparr>googleApiKey = [], geminiApiKey = [], languageCode = ''en-US''\<rparr>,
     isRecording = False, mediaRecorder = None, audioChunks = [], genAI = None\<rparr>"
  by (simp add: loaded_def onload_def loadSettings_def object_assign_def DEFAULT_SETTINGS_def
      new_plugin_def)

lemma capturing_fields:
  "capturing = \<lparr>settings = \<lparr>googleApiKey = [], geminiApiKey = [], languageCode = ''en-US''\<rparr>,
     isRecording = True, mediaRecorder = Some \<lparr>rec_stream = 1, rec_state = recording\<rparr>,
     audioChunks = [], genAI = None\<rparr>"
  by (simp add: capturing_def loaded_fields toggleRecording_def)

lemma processing_fields:
  "processing = \<lparr>settings = \<lparr>googleApiKey = [], geminiApiKey = [], languageCode = ''en-US''\<rparr>,
     isRecording = False, mediaRecorder = Some \<lparr>rec_stream = 1, rec_state = inactive\<rparr>,
     audioChunks = [], genAI = None\<rparr>"
  by (simp add: processing_def capturing_fields toggleRecording_def stopRecording_def)

lemma configured_fields:
  "configured = \<lparr>settings = \<lparr>googleApiKey = ''g'', geminiApiKey = ''k'', languageCode = ''en-US''\<rparr>,
     isRecording = False, mediaRecorder = None, audioChunks = [],
     genAI = Some (GoogleGenerativeAI ''k'')\<rparr>"
  by (simp add: configured_def saved_keys_def onload_def loadSettings_def object_assign_def
      DEFAULT_SETTINGS_def new_plugin_def Let_def)

lemma recorded_fields:
  "recorded = \<lparr>settings = \<lparr>googleApiKey = ''g'', geminiApiKey = ''k'', languageCode = ''en-US''\<rparr>,
     isRecording = False, mediaRecorder = Some \<lparr>rec_stream = 1, rec_state = inactive\<rparr>,
     audioChunks = [seg1, seg2], genAI = Some (GoogleGenerativeAI ''k'')\<rparr>"
  by (simp add: recorded_def configured_fields toggleRecording_def stopRecording_def
      ondataavailable_def)

lemma edited_fields:
  "edited = \<lparr>settings = \<lparr>googleApiKey = [], geminiApiKey = ''k'', languageCode = ''en-US''\<rparr>,
     isRecording = False, mediaRecorder = None, audioChunks = [], genAI = None\<rparr>"
  by (simp add: edited_def loaded_fields onChange_geminiApiKey_def Let_def)

lemma cleared_fields:
  "cleared = \<lparr>settings = \<lparr>googleApiKey = ''g'', geminiApiKey = [], languageCode = ''en-US''\<rparr>,
     isRecording = False, mediaRecorder = None, audioChunks = [],
     genAI = Some (GoogleGenerativeAI ''k'')\<rparr>"
  by (simp add: cleared_def configured_fields onChange_geminiApiKey_def Let_def)

subsection \<open>Facts about the machine\<close>

lemma effects_of_Nil: "effects_of n [] = []"
  by (simp add: effects_of_def)

lemma effects_of_append: "effects_of n (xs @ ys) = effects_of n xs @ effects_of n ys"
  by (simp add: effects_of_def)

lemma effects_of_tag: "effects_of n (tag l evs) = (if l = Some n then evs else [])"
  by (auto simp: effects_of_def tag_def filter_map comp_def)

lemma snd_set_tag: "snd ` set (tag l evs) = set evs"
  by (induction evs) (simp_all add: tag_def)

lemma throws_clears:
  "count_list (snd (handleStop_throws error s)) ClearChunks = 1
   \<and> last (snd (handleStop_throws error s)) = ClearChunks
   \<and> audioChunks (fst (handleStop_throws error s)) = []
   \<and> isRecording (fst (handleStop_throws error s)) = isRecording s"
  by (simp add: handleStop_throws_def handleStop_catch_def)

lemma delivers_clears:
  "count_list (snd (handleStop_delivers editor c s)) ClearChunks = 1
   \<and> last (snd (handleStop_delivers editor c s)) = ClearChunks
   \<and> audioChunks (fst (handleStop_delivers editor c s)) = []
   \<and> isRecording (fst (handleStop_delivers editor c s)) = isRecording s"
  by (simp add: handleStop_delivers_def)

lemma cleanText_call_no_clear: "cleanText_call eng text s = Inr evs \<Longrightarrow> ClearChunks \<notin> set evs"
  by (auto simp: cleanText_call_def and_then_def split: option.splits sum.splits)

lemma onloadend_no_clear: "onloadend r s = Some evs \<Longrightarrow> ClearChunks \<notin> set evs"
  by (auto simp: onloadend_def split: read_outcome.splits)

text \<open>What one step does to run \<open>n\<close>, for each of the three ways a step ends.\<close>

lemma outside_ok:
  assumes "outside sys1 r = Some (sys', effs)" and "runs sys1 = runs sys"
  shows "run_step_ok n sys sys' effs"
  using assms
  by (auto simp: outside_def run_step_ok_def settled_def awaiting_def effects_of_tag)

lemma suspends_ok:
  assumes "suspends sys m st evs = Some (sys', effs)"
    and "awaiting sys m st0" and "st0 \<noteq> Settled" and "st \<noteq> Settled"
    and "ClearChunks \<notin> set evs"
  shows "run_step_ok n sys sys' effs"
  using assms
  by (auto simp: suspends_def run_step_ok_def settled_def awaiting_def effects_of_tag
      nth_list_update split: if_splits)

lemma returns_ok:
  assumes "returns sys m r = Some (sys', effs)"
    and "awaiting sys m st0" and "st0 \<noteq> Settled"
    and "count_list (snd r) ClearChunks = 1" and "last (snd r) = ClearChunks"
    and "audioChunks (fst r) = []"
  shows "run_step_ok n sys sys' effs"
  using assms
  by (auto simp: returns_def run_step_ok_def settled_def awaiting_def effects_of_tag
      nth_list_update split: if_splits)

lemma step_ok:
  assumes "step eng ev sys = Some (sys', effs)"
  shows "run_step_ok n sys sys' effs"
proof (cases ev)
  case Clicked
  show ?thesis
  proof (cases "isRecording (plug sys)")
    case True
    with assms Clicked have "outside sys (stopRecording (plug sys)) = Some (sys', effs)"
      by simp
    then show ?thesis
      by (rule outside_ok) simp
  next
    case False
    with assms Clicked show ?thesis
      by (auto simp: run_step_ok_def settled_def awaiting_def effects_of_def)
  qed
next
  case (MediaSettled m)
  with assms have "outside (sys\<lparr>starting := starting sys - 1\<rparr>)
      (startRecording_resume m (plug sys)) = Some (sys', effs)"
    by (simp split: if_splits)
  then show ?thesis
    by (rule outside_ok) simp
next
  case (ChunkArrived data)
  with assms have "outside sys (ondataavailable data (plug sys), []) = Some (sys', effs)"
    by (simp split: if_splits)
  then show ?thesis
    by (rule outside_ok) simp
next
  case RecorderStopped
  with assms show ?thesis
    by (auto simp: run_step_ok_def settled_def awaiting_def effects_of_tag handleStop_call_def
        nth_append split: if_splits)
next
  case (ReadSettled m r)
  with assms have a: "awaiting sys m AwaitRead"
    by (auto split: if_splits)
  show ?thesis
  proof (cases "onloadend r (plug sys)")
    case None
    with assms ReadSettled a have s: "suspends sys m Hung [] = Some (sys', effs)"
      by simp
    show ?thesis
      by (rule suspends_ok [OF s a]) simp_all
  next
    case (Some evs)
    with assms ReadSettled a have s: "suspends sys m AwaitFetch evs = Some (sys', effs)"
      by simp
    show ?thesis
      by (rule suspends_ok [OF s a]) (simp_all add: onloadend_no_clear [OF Some])
  qed
next
  case (FetchSettled m f)
  with assms have a: "awaiting sys m AwaitFetch"
    by (auto split: if_splits)
  show ?thesis
  proof (cases f)
    case (FetchFailed err)
    with assms FetchSettled a
    have s: "returns sys m (handleStop_throws (HostError err) (plug sys)) = Some (sys', effs)"
      by simp
    show ?thesis
      by (rule returns_ok [OF s a]) (simp_all add: throws_clears)
  next
    case (FetchResponse status)
    with assms FetchSettled a have s: "suspends sys m AwaitJson [] = Some (sys', effs)"
      by simp
    show ?thesis
      by (rule suspends_ok [OF s a]) simp_all
  qed
next
  case (JsonSettled m j)
  with assms have a: "awaiting sys m AwaitJson"
    by (auto split: if_splits)
  show ?thesis
  proof (cases j)
    case (JsonFailed err)
    with assms JsonSettled a
    have s: "returns sys m (handleStop_throws (HostError err) (plug sys)) = Some (sys', effs)"
      by simp
    show ?thesis
      by (rule returns_ok [OF s a]) (simp_all add: throws_clears)
  next
    case (JsonValue data)
    show ?thesis
    proof (cases "read_results eng data")
      case (Inl err)
      with assms JsonSettled JsonValue a
      have s: "returns sys m (handleStop_throws err (plug sys)) = Some (sys', effs)"
        by simp
      show ?thesis
        by (rule returns_ok [OF s a]) (simp_all add: throws_clears)
    next
      case (Inr rawText)
      show ?thesis
      proof (cases "cleanText_call eng rawText (plug sys)")
        case (Inl err)
        with assms JsonSettled JsonValue Inr a
        have s: "returns sys m (fst (handleStop_throws err (plug sys)),
            CallCleanTextWith rawText # snd (handleStop_throws err (plug sys))) = Some (sys', effs)"
          by simp
        show ?thesis
          by (rule returns_ok [OF s a])
             (simp_all add: handleStop_throws_def handleStop_catch_def)
      next
        case c: (Inr evs)
        with assms JsonSettled JsonValue Inr a
        have s: "suspends sys m AwaitGenerate (CallCleanTextWith rawText # evs) = Some (sys', effs)"
          by simp
        show ?thesis
          by (rule suspends_ok [OF s a]) (simp_all add: cleanText_call_no_clear [OF c])
      qed
    qed
  qed
next
  case (GenerateSettled m g editor)
  with assms have a: "awaiting sys m AwaitGenerate"
    by (auto split: if_splits)
  show ?thesis
  proof (cases g)
    case (GenerateRejects err)
    with assms GenerateSettled a
    have s: "returns sys m (handleStop_throws (HostError err) (plug sys)) = Some (sys', effs)"
      by simp
    show ?thesis
      by (rule returns_ok [OF s a]) (simp_all add: throws_clears)
  next
    case (GenerateResponds r)
    show ?thesis
    proof (cases r)
      case (TextThrows err)
      with assms GenerateSettled GenerateResponds a
      have s: "returns sys m (handleStop_throws (HostError err) (plug sys)) = Some (sys', effs)"
        by simp
      show ?thesis
        by (rule returns_ok [OF s a]) (simp_all add: throws_clears)
    next
      case (TextReturns c)
      with assms GenerateSettled GenerateResponds a
      have s: "returns sys m (handleStop_delivers editor c (plug sys)) = Some (sys', effs)"
        by simp
      show ?thesis
        by (rule returns_ok [OF s a]) (simp_all add: delivers_clears)
    qed
  qed
next
  case (GoogleApiKeyEdited v)
  with assms have "outside sys (onChange_googleApiKey v (plug sys)) = Some (sys', effs)"
    by simp
  then show ?thesis
    by (rule outside_ok) simp
next
  case (GeminiApiKeyEdited v)
  with assms have "outside sys (onChange_geminiApiKey v (plug sys)) = Some (sys', effs)"
    by simp
  then show ?thesis
    by (rule outside_ok) simp
next
  case (LanguageCodeEdited v)
  with assms have "outside sys (onChange_languageCode v (plug sys)) = Some (sys', effs)"
    by simp
  then show ?thesis
    by (rule outside_ok) simp
qed

text \<open>The same along an execution of any length.\<close>

lemma exec_ok:
  "exec eng evs sys = Some (sys', effs) \<Longrightarrow>
   (settled sys n \<longrightarrow> settled sys' n \<and> effects_of n effs = [])
   \<and> (\<not> settled sys n \<and> settled sys' n \<longrightarrow>
        count_list (effects_of n effs) ClearChunks = 1
        \<and> last (effects_of n effs) = ClearChunks)
   \<and> (\<not> settled sys' n \<longrightarrow> ClearChunks \<notin> set (effects_of n effs))"
proof (induction evs arbitrary: sys sys' effs)
  case Nil
  then show ?case
    by (auto simp: effects_of_Nil)
next
  case (Cons ev evs)
  from Cons.prems obtain sys1 e1 e2
    where s: "step eng ev sys = Some (sys1, e1)"
      and r: "exec eng evs sys1 = Some (sys', e2)"
      and e: "effs = e1 @ e2"
    by (auto split: option.splits prod.splits)
  note a = step_ok [OF s, of n, unfolded run_step_ok_def]
  note b = Cons.IH [OF r]
  show ?case
  proof (cases "settled sys n")
    case True
    with a b e show ?thesis
      by (simp add: effects_of_append)
  next
    case unsettled: False
    show ?thesis
    proof (cases "settled sys1 n")
      case True
      with a b e unsettled show ?thesis
        by (simp add: effects_of_append)
    next
      case False
      show ?thesis
      proof (cases "settled sys' n")
        case True
        with b False have c: "count_list (effects_of n e2) ClearChunks = 1"
          and l: "last (effects_of n e2) = ClearChunks"
          by simp_all
        from c have "effects_of n e2 \<noteq> []"
          by auto
        moreover from a False have "count_list (effects_of n e1) ClearChunks = 0"
          by simp
        ultimately show ?thesis
          using c l e unsettled True
          by (simp add: effects_of_append)
      next
        case still: False
        with a b e False show ?thesis
          by (simp add: effects_of_append)
      qed
    qed
  qed
qed

lemma step_of_run_flag:
  assumes "step eng ev sys = Some (sys', effs)" and "of_run ev"
  shows "isRecording (plug sys') = isRecording (plug sys)"
  using assms
  by (cases ev)
     (auto simp: suspends_def returns_def handleStop_throws_def handleStop_delivers_def
        split: if_splits option.splits fetch_reply.splits json_reply.splits sum.splits
          generate_outcome.splits text_outcome.splits)

text \<open>The chunks held grow by the chunks that arrive, as long as no run clears them.\<close>

lemma startRecording_resume_chunks: "audioChunks (fst (startRecording_resume m s)) = audioChunks s"
  by (cases m) simp_all

lemma stopRecording_chunks: "audioChunks (fst (stopRecording s)) = audioChunks s"
  by (simp add: stopRecording_def split: option.splits)

lemma step_chunks:
  assumes "step eng ev sys = Some (sys', effs)" and "ClearChunks \<notin> snd ` set effs"
  shows "audioChunks (plug sys') = audioChunks (plug sys) @ arrivals [ev]"
  using assms
  by (cases ev)
     (auto simp: outside_def suspends_def returns_def snd_set_tag handleStop_throws_def
        handleStop_delivers_def startRecording_resume_chunks stopRecording_chunks
        ondataavailable_def onChange_googleApiKey_def onChange_geminiApiKey_def
        onChange_languageCode_def Let_def
        split: if_splits option.splits fetch_reply.splits json_reply.splits sum.splits
          generate_outcome.splits text_outcome.splits)

lemma arrivals_Cons: "arrivals (ev # evs) = arrivals [ev] @ arrivals evs"
  by (cases ev) simp_all

lemma exec_chunks:
  "exec eng evs sys = Some (sys', effs) \<Longrightarrow> ClearChunks \<notin> snd ` set effs \<Longrightarrow>
   audioChunks (plug sys') = audioChunks (plug sys) @ arrivals evs"
proof (induction evs arbitrary: sys sys' effs)
  case Nil
  then show ?case by simp
next
  case (Cons ev evs)
  from Cons.prems(1) obtain sys1 e1 e2
    where s: "step eng ev sys = Some (sys1, e1)"
      and r: "exec eng evs sys1 = Some (sys', e2)"
      and e: "effs = e1 @ e2"
    by (auto split: option.splits prod.splits)
  from Cons.prems(2) e have n1: "ClearChunks \<notin> snd ` set e1" and n2: "ClearChunks \<notin> snd ` set e2"
    by auto
  have "audioChunks (plug sys1) = audioChunks (plug sys) @ arrivals [ev]"
    by (rule step_chunks [OF s n1])
  moreover have "audioChunks (plug sys') = audioChunks (plug sys1) @ arrivals evs"
    by (rule Cons.IH [OF r n2])
  ultimately show ?case
    by (simp add: arrivals_Cons [of ev evs])
qed

text \<open>Where the rejections of \<open>read_results\<close> come from.\<close>

lemma js_get_throws: "js_get v p = Inl err \<Longrightarrow> err = TypeError"
  by (cases "(v, p)" rule: js_get.cases) simp_all

lemma greater_zero_throws: "greater_zero eng v = Inl err \<Longrightarrow> \<exists>n. err = HostError n"
  by (cases "(eng, v)" rule: greater_zero.cases) (auto split: sum.splits)

lemma first_transcript_throws: "first_transcript rs = Inl err \<Longrightarrow> err = TypeError"
  by (auto simp: first_transcript_def and_then_def dest: js_get_throws split: sum.splits)

text \<open>No step of the machine changes the generative client.\<close>

lemma startRecording_resume_genAI: "genAI (fst (startRecording_resume m s)) = genAI s"
  by (cases m) simp_all

lemma step_genAI:
  assumes "step eng ev sys = Some (sys', effs)"
  shows "genAI (plug sys') = genAI (plug sys)"
  using assms
  by (cases ev)
     (auto simp: outside_def suspends_def returns_def handleStop_throws_def
        handleStop_delivers_def startRecording_resume_genAI stopRecording_def
        ondataavailable_def onChange_googleApiKey_def onChange_geminiApiKey_def
        onChange_languageCode_def Let_def
        split: if_splits option.splits fetch_reply.splits json_reply.splits sum.splits
          generate_outcome.splits text_outcome.splits)

lemma exec_genAI:
  "exec eng evs sys = Some (sys', effs) \<Longrightarrow> genAI (plug sys') = genAI (plug sys)"
proof (induction evs arbitrary: sys sys' effs)
  case Nil
  then show ?case by simp
next
  case (Cons ev evs)
  from Cons.prems obtain sys1 e1 e2
    where s: "step eng ev sys = Some (sys1, e1)"
      and r: "exec eng evs sys1 = Some (sys', e2)"
    by (auto split: option.splits prod.splits)
  from step_genAI [OF s] Cons.IH [OF r] show ?case
    by simp
qed

lemma exec_Cons_Some:
  "step eng ev sys = Some (sys1, e1) \<Longrightarrow>
   exec eng (ev # evs) sys =
     (case exec eng evs sys1 of None \<Rightarrow> None | Some (sys2, e2) \<Rightarrow> Some (sys2, e1 @ e2))"
  by simp

lemma recorded_system_delivers:
  "exec some_engine one_delivery recorded_system = Some (delivered_system, delivery_effects)"
  by (simp add: one_delivery_def recorded_system_def delivered_system_def delivery_effects_def
      recorded_fields awaiting_def suspends_def returns_def tag_def onloadend_def
      post_recognize_def recognize_url_def second_field_def url123_def heard_body_def
      read_results_def first_transcript_def and_then_def cleanText_call_def
      handleStop_delivers_def)

lemma generating_system_delivers:
  "step some_engine (GenerateSettled 0 (GenerateResponds (TextReturns ''Test phrase.'')) True)
     generating_system =
   Some (delivered_system, [(Some 0, ReplaceSelection ''Test phrase.''), (Some 0, ClearChunks)])"
  by (simp add: generating_system_def delivered_system_def awaiting_def returns_def tag_def
      handleStop_delivers_def)

lemma first_pending_second_period:
  "exec some_engine second_period first_pending = Some (second_stopped, second_period_effects)"
  by (simp add: second_period_def first_pending_def second_stopped_def second_period_effects_def
      loaded_fields outside_def tag_def stopRecording_def ondataavailable_def)

lemma run_settles:
  assumes "awaiting sys n AwaitRead"
  shows "\<exists>k sys2 effs2.
           exec eng (take k [ReadSettled n (ReadResult url), FetchSettled n f, JsonSettled n j,
             GenerateSettled n g editor]) sys = Some (sys2, effs2)
           \<and> settled sys2 n"
proof -
  define sys1 where "sys1 = sys\<lparr>runs := (runs sys)[n := AwaitFetch]\<rparr>"
  define sys2 where "sys2 = sys1\<lparr>runs := (runs sys1)[n := AwaitJson]\<rparr>"
  define sys3 where "sys3 = sys2\<lparr>runs := (runs sys2)[n := AwaitGenerate]\<rparr>"
  from assms have n: "n < length (runs sys)"
    by (simp add: awaiting_def)
  have s1: "step eng (ReadSettled n (ReadResult url)) sys =
      Some (sys1, tag (Some n) [FetchRecognize (post_recognize (plug sys) (second_field url))])"
    using assms by (simp add: onloadend_def suspends_def sys1_def)
  have a1: "awaiting sys1 n AwaitFetch"
    using n by (simp add: awaiting_def sys1_def)
  have a2: "awaiting sys2 n AwaitJson"
    using n by (simp add: awaiting_def sys1_def sys2_def)
  have a3: "awaiting sys3 n AwaitGenerate"
    using n by (simp add: awaiting_def sys1_def sys2_def sys3_def)
  have n1: "n < length (runs sys1)" and n2: "n < length (runs sys2)"
    and n3: "n < length (runs sys3)"
    using n by (simp_all add: sys1_def sys2_def sys3_def)
  have fetch: "(\<exists>s e. step eng (FetchSettled n f) sys1 = Some (s, e) \<and> settled s n)
      \<or> (\<exists>e. step eng (FetchSettled n f) sys1 = Some (sys2, e))"
    using a1 n1
    by (cases f) (simp_all add: returns_def suspends_def settled_def awaiting_def sys2_def)
  have json: "(\<exists>s e. step eng (JsonSettled n j) sys2 = Some (s, e) \<and> settled s n)
      \<or> (\<exists>e. step eng (JsonSettled n j) sys2 = Some (sys3, e))"
    using a2 n2
    by (auto simp: returns_def suspends_def settled_def awaiting_def sys3_def
        split: json_reply.splits sum.splits)
  have generate: "\<exists>s e. step eng (GenerateSettled n g editor) sys3 = Some (s, e) \<and> settled s n"
    using a3 n3
    by (auto simp: returns_def settled_def awaiting_def
        split: generate_outcome.splits text_outcome.splits)
  from fetch show ?thesis
  proof
    assume "\<exists>s e. step eng (FetchSettled n f) sys1 = Some (s, e) \<and> settled s n"
    then obtain s e where "step eng (FetchSettled n f) sys1 = Some (s, e)" and "settled s n"
      by blast
    then show ?thesis
      by (intro exI [where x = "Suc (Suc 0)"])
         (simp add: exec_Cons_Some [OF s1] exec_Cons_Some del: step.simps exec.simps(2))
  next
    assume "\<exists>e. step eng (FetchSettled n f) sys1 = Some (sys2, e)"
    then obtain e2 where s2: "step eng (FetchSettled n f) sys1 = Some (sys2, e2)"
      by blast
    from json show ?thesis
    proof
      assume "\<exists>s e. step eng (JsonSettled n j) sys2 = Some (s, e) \<and> settled s n"
      then obtain s e where "step eng (JsonSettled n j) sys2 = Some (s, e)" and "settled s n"
        by blast
      then show ?thesis
        by (intro exI [where x = "Suc (Suc (Suc 0))"])
           (simp add: exec_Cons_Some [OF s1] exec_Cons_Some [OF s2] exec_Cons_Some
              del: step.simps exec.simps(2))
    next
      assume "\<exists>e. step eng (JsonSettled n j) sys2 = Some (sys3, e)"
      then obtain e3 where s3: "step eng (JsonSettled n j) sys2 = Some (sys3, e3)"
        by blast
      from generate obtain s e where "step eng (GenerateSettled n g editor) sys3 = Some (s, e)"
        and "settled s n"
        by blast
      then show ?thesis
        by (intro exI [where x = "Suc (Suc (Suc (Suc 0)))"])
           (simp add: exec_Cons_Some [OF s1] exec_Cons_Some [OF s2] exec_Cons_Some [OF s3]
              exec_Cons_Some del: step.simps exec.simps(2))
    qed
  qed
qed

subsection \<open>The first part is the second without interruption\<close>

text \<open>\<open>startRecording\<close> of the first part is the request followed by the resumption.\<close>

lemma startRecording_resume_eq:
  "startRecording m s =
     (fst (startRecording_resume m s), GetUserMedia # snd (startRecording_resume m s))"
  by (cases m) simp_all

text \<open>On a body of the documented shape, \<open>read_results\<close> is \<open>read_transcript\<close>.\<close>

lemma read_results_shaped:
  "read_results eng (data_json d) =
     (case read_transcript d of Inl err \<Rightarrow> Inl err | Inr t \<Rightarrow> Inr (Some (JString t)))"
  by (simp add: read_results_def read_transcript_def data_json_def result_json_def
      alternative_json_def first_transcript_def and_then_def
      split: option.splits list.splits)

text \<open>
  From a stop event on, with a read that succeeds, a response of the documented shape and
  no other callback in between, the machine leaves the plugin as \<open>handleStop\<close> of the
  first part does, with the same effects in the same order, but for the form of the read,
  of the request and of the entry of \<open>cleanText\<close>.
\<close>

lemma handleStop_uninterrupted:
  assumes "mediaRecorder (plug sys) \<noteq> None"
  shows "\<exists>k sys' effs.
           exec eng (take k (RecorderStopped # replies (length (runs sys)) url e)) sys
             = Some (sys', effs)
           \<and> settled sys' (length (runs sys))
           \<and> plug sys' = fst (handleStop e (plug sys))
           \<and> filter in_both_parts (effects_of (length (runs sys)) effs)
               = filter in_both_parts (snd (handleStop e (plug sys)))"
proof -
  define n where "n = length (runs sys)"
  define sys0 where "sys0 = sys\<lparr>runs := runs sys @ [AwaitRead]\<rparr>"
  define sys1 where "sys1 = sys\<lparr>runs := runs sys @ [AwaitFetch]\<rparr>"
  define sys2 where "sys2 = sys\<lparr>runs := runs sys @ [AwaitJson]\<rparr>"
  define sys3 where "sys3 = sys\<lparr>runs := runs sys @ [AwaitGenerate]\<rparr>"
  define s where "s = plug sys"
  have s0: "step eng RecorderStopped sys = Some (sys0, tag (Some n) (handleStop_call s))"
    using assms by (simp add: sys0_def n_def s_def)
  have s1: "step eng (ReadSettled n (ReadResult url)) sys0 =
      Some (sys1, tag (Some n) [FetchRecognize (post_recognize s (second_field url))])"
    by (simp add: sys0_def sys1_def n_def s_def awaiting_def suspends_def onloadend_def)
  have fin1: "\<And>p. settled (sys1\<lparr>plug := p, runs := (runs sys1)[n := Settled]\<rparr>) n"
    and fin2: "\<And>p. settled (sys2\<lparr>plug := p, runs := (runs sys2)[n := Settled]\<rparr>) n"
    and fin3: "\<And>p. settled (sys3\<lparr>plug := p, runs := (runs sys3)[n := Settled]\<rparr>) n"
    by (simp_all add: settled_def awaiting_def n_def sys1_def sys2_def sys3_def)
  have hs: "fst (handleStop e s) = s\<lparr>audioChunks := []\<rparr>"
    by (rule handleStop_state)
  show ?thesis
  proof (cases "fetch_result e")
    case (FetchRejects err)
    have t: "transcription e s = Inl (HostError err)"
      by (simp add: transcription_def transcribeAudio_def FetchRejects)
    have sl: "step eng (FetchSettled n (FetchFailed err)) sys1 =
        Some (sys1\<lparr>plug := fst (handleStop_throws (HostError err) s), runs := (runs sys1)[n := Settled]\<rparr>,
              tag (Some n) (snd (handleStop_throws (HostError err) s)))"
      by (simp add: sys1_def n_def s_def awaiting_def returns_def)
    show ?thesis
      unfolding n_def [symmetric] s_def [symmetric]
      by (intro exI [where x = "Suc (Suc (Suc 0))"])
         (simp add: exec_Cons_Some [OF sl] replies_def FetchRejects exec_Cons_Some [OF s0] exec_Cons_Some [OF s1]
            fin1 fin2 fin3 hs handleStop_throws_def effects_of_append
            effects_of_tag effects_of_Nil handleStop_call_def handleStop_events
            handleStop_try_transcription_fails [OF t]
            del: step.simps exec.simps(2))
  next
    case (FetchResponds status body)
    have s2: "step eng (FetchSettled n (FetchResponse status)) sys1 = Some (sys2, tag (Some n) [])"
      by (simp add: sys1_def sys2_def n_def awaiting_def suspends_def)
    show ?thesis
    proof (cases body)
      case (JsonRejects err)
      have t: "transcription e s = Inl (HostError err)"
        by (simp add: transcription_def transcribeAudio_def FetchResponds JsonRejects)
      have sl: "step eng (JsonSettled n (JsonFailed err)) sys2 =
          Some (sys2\<lparr>plug := fst (handleStop_throws (HostError err) s), runs := (runs sys2)[n := Settled]\<rparr>,
                tag (Some n) (snd (handleStop_throws (HostError err) s)))"
        by (simp add: sys2_def n_def s_def awaiting_def returns_def)
      show ?thesis
        unfolding n_def [symmetric] s_def [symmetric]
        by (intro exI [where x = "Suc (Suc (Suc (Suc 0)))"])
           (simp add: exec_Cons_Some [OF sl] replies_def FetchResponds JsonRejects exec_Cons_Some [OF s0]
              exec_Cons_Some [OF s1] exec_Cons_Some [OF s2]
              fin1 fin2 fin3 hs handleStop_throws_def effects_of_append
              effects_of_tag effects_of_Nil handleStop_call_def handleStop_events
              handleStop_try_transcription_fails [OF t]
              del: step.simps exec.simps(2))
    next
      case (JsonData d)
      show ?thesis
      proof (cases "read_transcript d")
        case (Inl err)
        have t: "transcription e s = Inl err"
          by (simp add: transcription_def transcribeAudio_def FetchResponds JsonData Inl)
        have sl: "step eng (JsonSettled n (JsonValue (data_json d))) sys2 =
            Some (sys2\<lparr>plug := fst (handleStop_throws err s), runs := (runs sys2)[n := Settled]\<rparr>,
                  tag (Some n) (snd (handleStop_throws err s)))"
          by (simp add: sys2_def n_def s_def awaiting_def read_results_shaped Inl returns_def)
        show ?thesis
          unfolding n_def [symmetric] s_def [symmetric]
          by (intro exI [where x = "Suc (Suc (Suc (Suc 0)))"])
             (simp add: exec_Cons_Some [OF sl] replies_def FetchResponds JsonData exec_Cons_Some [OF s0]
                exec_Cons_Some [OF s1] exec_Cons_Some [OF s2]
                fin1 fin2 fin3 hs handleStop_throws_def effects_of_append
                effects_of_tag effects_of_Nil handleStop_call_def handleStop_events
                handleStop_try_transcription_fails [OF t]
                del: step.simps exec.simps(2))
      next
        case (Inr t)
        have tr: "transcription e s = Inr t"
          by (simp add: transcription_def transcribeAudio_def FetchResponds JsonData Inr)
        show ?thesis
        proof (cases "genAI s")
          case None
          have rf: "refinement e s t = Inl (ErrorObject ''Generative AI not initialized.'')"
            by (simp add: refinement_def cleanText_def None)
          have sl: "step eng (JsonSettled n (JsonValue (data_json d))) sys2 =
              Some (sys2\<lparr>plug := fst (fst (handleStop_throws (ErrorObject ''Generative AI not initialized.'') s), CallCleanTextWith (Some (JString t)) # snd (handleStop_throws (ErrorObject ''Generative AI not initialized.'') s)), runs := (runs sys2)[n := Settled]\<rparr>,
                    tag (Some n) (snd (fst (handleStop_throws (ErrorObject ''Generative AI not initialized.'') s), CallCleanTextWith (Some (JString t)) # snd (handleStop_throws (ErrorObject ''Generative AI not initialized.'') s))))"
            by (simp add: sys2_def n_def s_def awaiting_def read_results_shaped Inr
                cleanText_call_def None [unfolded s_def] returns_def)
          show ?thesis
            unfolding n_def [symmetric] s_def [symmetric]
            by (intro exI [where x = "Suc (Suc (Suc (Suc 0)))"])
               (simp add: exec_Cons_Some [OF sl] replies_def FetchResponds JsonData exec_Cons_Some [OF s0]
                  exec_Cons_Some [OF s1] exec_Cons_Some [OF s2]
                  fin1 fin2 fin3 hs handleStop_throws_def effects_of_append
                  effects_of_tag effects_of_Nil handleStop_call_def handleStop_events
                  handleStop_try_refinement_fails [OF tr rf] cleanText_events None
                  del: step.simps exec.simps(2))
        next
          case (Some ai)
          have s3: "step eng (JsonSettled n (JsonValue (data_json d))) sys2 =
              Some (sys3, tag (Some n) [CallCleanTextWith (Some (JString t)),
                GenerateContent ai ''gemini-pro'' (instruction @ t)])"
            by (simp add: sys2_def sys3_def n_def s_def awaiting_def read_results_shaped Inr
                cleanText_call_def and_then_def Some [unfolded s_def] suspends_def)
          have a3: "awaiting sys3 n AwaitGenerate"
            by (simp add: sys3_def n_def awaiting_def)
          show ?thesis
          proof (cases "refinement e s t")
            case (Inl err)
            then have sl: "step eng (GenerateSettled n (generate_result e) (activeEditor e)) sys3 =
                Some (sys3\<lparr>plug := fst (handleStop_throws err s), runs := (runs sys3)[n := Settled]\<rparr>,
                      tag (Some n) (snd (handleStop_throws err s)))"
              using a3
              by (auto simp: returns_def refinement_def cleanText_def Some [unfolded s_def] Let_def sys3_def s_def
                  split: generate_outcome.splits text_outcome.splits)
            show ?thesis
              unfolding n_def [symmetric] s_def [symmetric]
              by (intro exI [where x = "Suc (Suc (Suc (Suc (Suc 0))))"])
                 (simp add: exec_Cons_Some [OF sl] replies_def FetchResponds JsonData exec_Cons_Some [OF s0]
                    exec_Cons_Some [OF s1] exec_Cons_Some [OF s2] exec_Cons_Some [OF s3]
                    fin1 fin2 fin3 hs handleStop_throws_def effects_of_append
                    effects_of_tag effects_of_Nil handleStop_call_def handleStop_events
                    handleStop_try_refinement_fails [OF tr Inl] cleanText_events Some
                    del: step.simps exec.simps(2))
          next
            case (Inr c)
            then have sl: "step eng (GenerateSettled n (generate_result e) (activeEditor e)) sys3 =
                Some (sys3\<lparr>plug := fst (handleStop_delivers (activeEditor e) c s), runs := (runs sys3)[n := Settled]\<rparr>,
                      tag (Some n) (snd (handleStop_delivers (activeEditor e) c s)))"
              using a3
              by (auto simp: returns_def refinement_def cleanText_def Some [unfolded s_def] Let_def sys3_def s_def
                  split: generate_outcome.splits text_outcome.splits)
            show ?thesis
              unfolding n_def [symmetric] s_def [symmetric]
              by (intro exI [where x = "Suc (Suc (Suc (Suc (Suc 0))))"])
                 (simp add: exec_Cons_Some [OF sl] replies_def FetchResponds JsonData exec_Cons_Some [OF s0]
                    exec_Cons_Some [OF s1] exec_Cons_Some [OF s2] exec_Cons_Some [OF s3]
                    fin1 fin2 fin3 hs handleStop_delivers_def effects_of_append
                    effects_of_tag effects_of_Nil handleStop_call_def handleStop_events
                    handleStop_try_succeeds [OF tr Inr] handleStop_catch_def cleanText_events Some
                    del: step.simps exec.simps(2))
          qed
        qed
      qed
    qed
  qed
qed

section \<open>The claims\<close>

subsection \<open>C1: the ribbon click outside Idle\<close>

text \<open>
  Claim C1 fails between \<open>stopRecording\<close> and the end of the pipeline. In \<open>processing\<close>
  the stop has been issued and \<open>handleStop\<close> has not run; the flag is already lowered, so
  the click is not ignored: it asks for the microphone, makes a second recorder on the new
  stream and starts it.
\<close>

theorem toggle_while_processing_counterexample:
  "\<not> isRecording processing
   \<and> mediaRecorder processing = Some \<lparr>rec_stream = 1, rec_state = inactive\<rparr>
   \<and> toggleRecording (Captures 2) processing =
       (processing\<lparr>mediaRecorder := Some \<lparr>rec_stream = 2, rec_state = recording\<rparr>,
          isRecording := True\<rparr>,
        [GetUserMedia, NewMediaRecorder 2, RecorderStart, Notice ''Recording started...''])"
  by (simp add: processing_fields toggleRecording_def)

text \<open>
  Claim C1, amended. The click is decided by the recording flag alone. While the flag is
  set, the click is \<open>stopRecording\<close>: it neither asks for the microphone nor makes or
  starts a recorder, and it keeps the recorder's stream and the chunks. While the flag is
  not set, which includes the time after a stop whose pipeline has not settled, the click
  is \<open>startRecording\<close>; when the microphone is granted, that makes a new recorder,
  starts it and sets the flag.
\<close>

theorem toggleRecording_routes_on_flag:
  "(isRecording s \<longrightarrow>
      toggleRecording m s = stopRecording s
      \<and> filter starts_capture (snd (toggleRecording m s)) = []
      \<and> map_option rec_stream (mediaRecorder (fst (toggleRecording m s)))
          = map_option rec_stream (mediaRecorder s)
      \<and> audioChunks (fst (toggleRecording m s)) = audioChunks s)
   \<and> (\<not> isRecording s \<longrightarrow>
      toggleRecording m s = startRecording m s
      \<and> toggleRecording (Captures stream) s =
          (s\<lparr>mediaRecorder := Some \<lparr>rec_stream = stream, rec_state = recording\<rparr>,
             isRecording := True\<rparr>,
           [GetUserMedia, NewMediaRecorder stream, RecorderStart,
            Notice ''Recording started...'']))"
  by (simp add: toggleRecording_def stopRecording_def split: option.splits)

text \<open>Both halves at concrete states: a click while capturing, and a click after the stop.\<close>

theorem toggleRecording_routes_on_flag_witness:
  "isRecording capturing
   \<and> toggleRecording (Captures 2) capturing = stopRecording capturing
   \<and> filter starts_capture (snd (toggleRecording (Captures 2) capturing)) = []
   \<and> \<not> isRecording processing
   \<and> toggleRecording (Captures 2) processing = startRecording (Captures 2) processing"
proof -
  have c: "isRecording capturing"
    by (simp add: capturing_fields)
  have p: "\<not> isRecording processing"
    by (simp add: processing_fields)
  have a: "toggleRecording (Captures 2) capturing = stopRecording capturing
     \<and> filter starts_capture (snd (toggleRecording (Captures 2) capturing)) = []"
    using c toggleRecording_routes_on_flag [of capturing "Captures 2" 2] by blast
  have b: "toggleRecording (Captures 2) processing = startRecording (Captures 2) processing"
    using p toggleRecording_routes_on_flag [of processing "Captures 2" 2] by blast
  show ?thesis
    using c p a b by blast
qed

subsection \<open>C2: the chunks are cleared exactly once\<close>

text \<open>
  Claim C2 fails for the return to Idle. In \<open>restart_while_processing\<close> the first run
  awaits the recognition service when two clicks start a second recording; the service
  then fails, the run reports the error, clears the chunks and returns, and the recording
  flag is raised at that moment: the machine is Recording, not Idle.
\<close>

theorem settles_while_recording_counterexample:
  "exec some_engine restart_while_processing loaded_system =
     Some
      (\<lparr>plug = \<lparr>settings = \<lparr>googleApiKey = [], geminiApiKey = [], languageCode = ''en-US''\<rparr>,
          isRecording = True,
          mediaRecorder = Some \<lparr>rec_stream = 2, rec_state = recording\<rparr>,
          audioChunks = [], genAI = None\<rparr>,
        starting = 0, runs = [Settled]\<rparr>,
       [(None, GetUserMedia), (None, NewMediaRecorder 1), (None, RecorderStart),
        (None, Notice ''Recording started...''), (None, RecorderStop),
        (None, Notice ''Recording stopped.''),
        (Some 0, CallTranscribeAudio \<lparr>blob_bytes = [1, 2], blob_type = ''audio/webm''\<rparr>),
        (Some 0, ReadAsDataURL \<lparr>blob_bytes = [1, 2], blob_type = ''audio/webm''\<rparr>),
        (Some 0, FetchRecognize
          \<lparr>call_url = ''https://speech.googleapis.com/v1/speech:recognize?key='',
           call_encoding = ''WEBM_OPUS'', call_sampleRateHertz = 48000,
           call_languageCode = ''en-US'', call_content = Some ''AQI=''\<rparr>),
        (None, GetUserMedia), (None, NewMediaRecorder 2), (None, RecorderStart),
        (None, Notice ''Recording started...''),
        (Some 0, Notice ''Error processing audio. Please check the console for details.''),
        (Some 0, ConsoleError None (HostError 5)), (Some 0, ClearChunks)])"
  by (simp add: restart_while_processing_def loaded_system_def loaded_fields seg1_def url12_def
      outside_def suspends_def returns_def awaiting_def tag_def stopRecording_def
      ondataavailable_def handleStop_call_def audioBlob_def new_Blob_def onloadend_def
      post_recognize_def recognize_url_def second_field_def handleStop_throws_def
      handleStop_catch_def)

text \<open>
  Claim C2, amended. Take any execution of the machine, from any state, and any run of the
  pipeline that settles in it: the run has assigned the empty list to the chunks exactly
  once, as the last of its effects, whatever other callbacks ran in between and whatever
  the services answered; a run that has settled has no further effect. In the step in
  which a run settles the chunks are left empty.
  No step of a run changes the recording flag, so the machine is Idle when the run returns
  only if the flag is lowered then. And a run whose audio has been read does settle, in
  success or in failure, once the host has answered its awaits.
\<close>

theorem settled_run_clears_exactly_once:
  "(exec eng evs sys = Some (sys', effs) \<and> \<not> settled sys n \<and> settled sys' n \<longrightarrow>
      count_list (effects_of n effs) ClearChunks = 1
      \<and> last (effects_of n effs) = ClearChunks)
   \<and> (exec eng evs sys = Some (sys', effs) \<and> settled sys n \<longrightarrow>
      settled sys' n \<and> effects_of n effs = [])
   \<and> (step eng ev sys = Some (sys1, effs1) \<and> \<not> settled sys n \<and> settled sys1 n \<longrightarrow>
      audioChunks (plug sys1) = [] \<and> last (effects_of n effs1) = ClearChunks)
   \<and> (step eng ev sys = Some (sys1, effs1) \<and> of_run ev \<longrightarrow>
      isRecording (plug sys1) = isRecording (plug sys))
   \<and> (awaiting sys n AwaitRead \<longrightarrow>
      (\<exists>k sys2 effs2.
         exec eng (take k [ReadSettled n (ReadResult url), FetchSettled n f, JsonSettled n j,
           GenerateSettled n g editor]) sys = Some (sys2, effs2)
         \<and> settled sys2 n))"
proof (intro conjI impI)
  assume a: "exec eng evs sys = Some (sys', effs) \<and> \<not> settled sys n \<and> settled sys' n"
  then have "exec eng evs sys = Some (sys', effs)"
    by simp
  from exec_ok [OF this, of n] a
  show "count_list (effects_of n effs) ClearChunks = 1"
    and "last (effects_of n effs) = ClearChunks"
    by simp_all
next
  assume a: "exec eng evs sys = Some (sys', effs) \<and> settled sys n"
  then have "exec eng evs sys = Some (sys', effs)"
    by simp
  from exec_ok [OF this, of n] a
  show "settled sys' n" and "effects_of n effs = []"
    by simp_all
next
  assume a: "step eng ev sys = Some (sys1, effs1) \<and> \<not> settled sys n \<and> settled sys1 n"
  then have "step eng ev sys = Some (sys1, effs1)"
    by simp
  from step_ok [OF this, of n, unfolded run_step_ok_def] a
  show "audioChunks (plug sys1) = []" and "last (effects_of n effs1) = ClearChunks"
    by simp_all
next
  assume "step eng ev sys = Some (sys1, effs1) \<and> of_run ev"
  then have "step eng ev sys = Some (sys1, effs1)" and "of_run ev"
    by simp_all
  then show "isRecording (plug sys1) = isRecording (plug sys)"
    by (rule step_of_run_flag)
next
  assume "awaiting sys n AwaitRead"
  then show "\<exists>k sys2 effs2.
      exec eng (take k [ReadSettled n (ReadResult url), FetchSettled n f, JsonSettled n j,
        GenerateSettled n g editor]) sys = Some (sys2, effs2)
      \<and> settled sys2 n"
    by (rule run_settles)
qed

text \<open>
  The run that delivers the refined text of the recording of two chunks: it holds both
  chunks until its last step, which clears them.
\<close>

theorem settled_run_clears_exactly_once_witness:
  "exec some_engine one_delivery recorded_system = Some (delivered_system, delivery_effects)
   \<and> \<not> settled recorded_system 0 \<and> settled delivered_system 0
   \<and> count_list (effects_of 0 delivery_effects) ClearChunks = 1
   \<and> last (effects_of 0 delivery_effects) = ClearChunks
   \<and> step some_engine (GenerateSettled 0 (GenerateResponds (TextReturns ''Test phrase.'')) True)
        generating_system =
      Some (delivered_system, [(Some 0, ReplaceSelection ''Test phrase.''), (Some 0, ClearChunks)])
   \<and> \<not> settled generating_system 0
   \<and> audioChunks (plug generating_system) = [seg1, seg2]
   \<and> audioChunks (plug delivered_system) = []
   \<and> isRecording (plug delivered_system) = isRecording (plug generating_system)
   \<and> awaiting recorded_system 0 AwaitRead
   \<and> exec some_engine [] delivered_system = Some (delivered_system, [])
   \<and> effects_of 0 [] = []"
proof -
  have a: "\<not> settled recorded_system 0" and b: "settled delivered_system 0"
    and c: "\<not> settled generating_system 0" and d: "awaiting recorded_system 0 AwaitRead"
    by (simp_all add: settled_def awaiting_def recorded_system_def delivered_system_def
        generating_system_def)
  have e: "audioChunks (plug generating_system) = [seg1, seg2]"
    by (simp add: generating_system_def recorded_fields)
  note t1 = settled_run_clears_exactly_once [of some_engine one_delivery recorded_system
      delivered_system delivery_effects 0
      "GenerateSettled 0 (GenerateResponds (TextReturns ''Test phrase.'')) True"]
  note t2 = settled_run_clears_exactly_once [of some_engine "[]" generating_system
      generating_system "[]" 0
      "GenerateSettled 0 (GenerateResponds (TextReturns ''Test phrase.'')) True"
      delivered_system "[(Some 0, ReplaceSelection ''Test phrase.''), (Some 0, ClearChunks)]"]
  from t1 a b recorded_system_delivers
  have f: "count_list (effects_of 0 delivery_effects) ClearChunks = 1
      \<and> last (effects_of 0 delivery_effects) = ClearChunks"
    by blast
  from t2 b c generating_system_delivers
  have g: "audioChunks (plug delivered_system) = []
      \<and> isRecording (plug delivered_system) = isRecording (plug generating_system)"
    by (simp del: step.simps)
  have h: "exec some_engine [] delivered_system = Some (delivered_system, [])"
    by simp
  have i: "effects_of 0 [] = []"
    by (rule effects_of_Nil)
  from a b c d e f g h i recorded_system_delivers generating_system_delivers show ?thesis
    by blast
qed

subsection \<open>C3: a capture with no segment\<close>

text \<open>
  Claim C3 fails when recording is stopped before any chunk arrived: the blob is built
  from no chunks without any error, \<open>transcribeAudio\<close> is called with it and the request
  is sent. The only failure here is the service's answer.
\<close>

theorem empty_capture_counterexample:
  "audioChunks processing = []
   \<and> snd (handleStop env_error_status processing) =
       [CallTranscribeAudio \<lparr>blob_bytes = [], blob_type = ''audio/webm''\<rparr>,
        Fetch \<lparr>req_url = ''https://speech.googleapis.com/v1/speech:recognize?key='',
          req_encoding = ''WEBM_OPUS'', req_sampleRateHertz = 48000,
          req_languageCode = ''en-US'',
          req_content = \<lparr>blob_bytes = [], blob_type = ''audio/webm''\<rparr>\<rparr>,
        Notice ''Error processing audio. Please check the console for details.'',
        ConsoleError None (StringValue ''No transcript found''),
        ClearChunks]"
  by (simp add: processing_fields env_error_status_def handleStop_def handleStop_try_def
      handleStop_catch_def audioBlob_def new_Blob_def transcribeAudio_def read_transcript_def
      recognize_body_def recognize_url_def)

text \<open>
  Claim C3, amended. When no chunk was appended, building the blob does not fail: it is the
  empty \<^verbatim>\<open>audio/webm\<close> blob, and the pipeline runs on it, beginning with the call of
  \<open>transcribeAudio\<close> and the recognition request that carries the empty blob.
\<close>

theorem empty_capture_runs_pipeline:
  assumes "audioChunks s = []"
  shows "audioBlob s = \<lparr>blob_bytes = [], blob_type = ''audio/webm''\<rparr>
       \<and> take 2 (snd (handleStop e s)) =
           [CallTranscribeAudio \<lparr>blob_bytes = [], blob_type = ''audio/webm''\<rparr>,
            Fetch (recognize_body s \<lparr>blob_bytes = [], blob_type = ''audio/webm''\<rparr>)]"
proof -
  have b: "audioBlob s = \<lparr>blob_bytes = [], blob_type = ''audio/webm''\<rparr>"
    using assms by (simp add: audioBlob_def new_Blob_def)
  obtain r ev where c: "handleStop_try e s (audioBlob s) = (r, ev)"
    by (cases "handleStop_try e s (audioBlob s)")
  have "take 2 ev = [CallTranscribeAudio (audioBlob s), Fetch (recognize_body s (audioBlob s))]"
    using c
    by (auto simp: handleStop_try_def transcribeAudio_pair split: sum.splits prod.splits)
  moreover have "2 \<le> length ev"
    using c
    by (auto simp: handleStop_try_def transcribeAudio_pair split: sum.splits prod.splits)
  ultimately have "take 2 (snd (handleStop e s)) =
      [CallTranscribeAudio (audioBlob s), Fetch (recognize_body s (audioBlob s))]"
    by (simp add: handleStop_events c)
  with b show ?thesis by simp
qed

text \<open>The same at the state reached by starting and stopping at once.\<close>

theorem empty_capture_runs_pipeline_witness:
  "audioChunks processing = []
   \<and> take 2 (snd (handleStop env_editor processing)) =
       [CallTranscribeAudio \<lparr>blob_bytes = [], blob_type = ''audio/webm''\<rparr>,
        Fetch (recognize_body processing \<lparr>blob_bytes = [], blob_type = ''audio/webm''\<rparr>)]"
proof -
  have a: "audioChunks processing = []"
    by (simp add: processing_fields)
  show ?thesis
    using a empty_capture_runs_pipeline [OF a, of env_editor] by simp
qed

subsection \<open>C4: the two ways transcription fails\<close>

text \<open>
  Claim C4 fails for a response with a non-success status whose body decodes to an object
  without \<^verbatim>\<open>results\<close>, as the service's error bodies do: \<open>transcribeAudio\<close> rejects with
  the same string as for a successful response with no result.
\<close>

theorem error_status_counterexample:
  "transcribeAudio_promise some_engine (ReadResult url12) (FetchResponse 403)
     (JsonValue error_body) = Rejects (StringValue ''No transcript found'')
   \<and> transcribeAudio_promise some_engine (ReadResult url12) (FetchResponse 200)
     (JsonValue (JObject [(''results'', JArray [])])) = Rejects (StringValue ''No transcript found'')"
  by (simp add: transcribeAudio_promise_def read_results_def and_then_def error_body_def)

text \<open>
  Claim C4, amended. When the audio has been read, \<open>transcribeAudio\<close> rejects with
  \<^verbatim>\<open>'No transcript found'\<close> exactly when a response arrived, with whatever HTTP status, its
  body decoded to a value other than \<^verbatim>\<open>null\<close>, and \<^verbatim>\<open>data.results && data.results.length > 0\<close>
  is false of it: \<^verbatim>\<open>results\<close> is missing or otherwise falsy, or its length is not greater
  than zero; so it does for an object without \<^verbatim>\<open>results\<close> and for one whose
  \<^verbatim>\<open>results\<close> is an empty array. The HTTP status never changes the outcome. It rejects
  with the error of the call when \<^verbatim>\<open>fetch\<close> fails or the body cannot be decoded, and with
  the \<^verbatim>\<open>TypeError\<close> of the failed property read when the body decodes to \<^verbatim>\<open>null\<close> or
  when \<^verbatim>\<open>results\<close> is an array with a first entry of which no first alternative can be
  read; none of these is the string.
\<close>

theorem transcribeAudio_rejections:
  "(transcribeAudio_promise eng r f j = Rejects (StringValue ''No transcript found'') \<longleftrightarrow>
      (\<exists>url status data rs.
         r = ReadResult url \<and> f = FetchResponse status \<and> j = JsonValue data
         \<and> js_get (Some data) Results = Inr rs
         \<and> ((\<exists>len. truthy rs \<and> js_get rs Length = Inr len \<and> greater_zero eng len = Inr False)
            \<or> \<not> truthy rs)))
   \<and> (map_of kvs ''results'' = None \<or> map_of kvs ''results'' = Some (JArray []) \<longrightarrow>
        transcribeAudio_promise eng (ReadResult url) (FetchResponse status) (JsonValue (JObject kvs))
          = Rejects (StringValue ''No transcript found''))
   \<and> (map_of kvs ''results'' = Some (JArray (x # xs))
        \<and> first_transcript (Some (JArray (x # xs))) = Inl thrown \<longrightarrow>
        thrown = TypeError
        \<and> transcribeAudio_promise eng (ReadResult url) (FetchResponse status)
            (JsonValue (JObject kvs)) = Rejects TypeError)
   \<and> transcribeAudio_promise eng r (FetchResponse status1) j
       = transcribeAudio_promise eng r (FetchResponse status2) j
   \<and> transcribeAudio_promise eng (ReadResult url) (FetchFailed err) j = Rejects (HostError err)
   \<and> transcribeAudio_promise eng (ReadResult url) (FetchResponse status) (JsonFailed err)
       = Rejects (HostError err)
   \<and> transcribeAudio_promise eng (ReadResult url) (FetchResponse status) (JsonValue JNull)
       = Rejects TypeError"
proof (intro conjI)
  show "transcribeAudio_promise eng r f j = Rejects (StringValue ''No transcript found'') \<longleftrightarrow>
      (\<exists>url status data rs.
         r = ReadResult url \<and> f = FetchResponse status \<and> j = JsonValue data
         \<and> js_get (Some data) Results = Inr rs
         \<and> ((\<exists>len. truthy rs \<and> js_get rs Length = Inr len \<and> greater_zero eng len = Inr False)
            \<or> \<not> truthy rs))"
    by (auto simp: transcribeAudio_promise_def read_results_def and_then_def
        dest: js_get_throws greater_zero_throws first_transcript_throws
        split: read_outcome.splits fetch_reply.splits json_reply.splits sum.splits if_splits)
next
  show "map_of kvs ''results'' = None \<or> map_of kvs ''results'' = Some (JArray []) \<longrightarrow>
      transcribeAudio_promise eng (ReadResult url) (FetchResponse status) (JsonValue (JObject kvs))
        = Rejects (StringValue ''No transcript found'')"
    by (auto simp: transcribeAudio_promise_def read_results_def and_then_def)
next
  show "map_of kvs ''results'' = Some (JArray (x # xs))
        \<and> first_transcript (Some (JArray (x # xs))) = Inl thrown \<longrightarrow>
        thrown = TypeError
        \<and> transcribeAudio_promise eng (ReadResult url) (FetchResponse status)
            (JsonValue (JObject kvs)) = Rejects TypeError"
    by (auto simp: transcribeAudio_promise_def read_results_def and_then_def
        dest: first_transcript_throws)
qed (simp_all add: transcribeAudio_promise_def read_results_def and_then_def
    split: read_outcome.splits)

text \<open>
  A body that has an \<^verbatim>\<open>error\<close> and no \<^verbatim>\<open>results\<close>, and one whose only result has no
  alternatives.
\<close>

theorem transcribeAudio_rejections_witness:
  "map_of [(''error'', JNull)] ''results'' = None
   \<and> transcribeAudio_promise some_engine (ReadResult url12) (FetchResponse 403)
        (JsonValue (JObject [(''error'', JNull)])) = Rejects (StringValue ''No transcript found'')
   \<and> map_of [(''results'', JArray [JObject []])] ''results'' = Some (JArray [JObject []])
   \<and> first_transcript (Some (JArray [JObject []])) = Inl TypeError
   \<and> transcribeAudio_promise some_engine (ReadResult url12) (FetchResponse 200)
        (JsonValue (JObject [(''results'', JArray [JObject []])])) = Rejects TypeError
   \<and> transcribeAudio_promise some_engine (ReadResult url12) (FetchResponse 403)
        (JsonValue JNull) = Rejects TypeError"
proof -
  have a: "map_of [(''error'', JNull)] ''results'' = None"
    by simp
  have b: "map_of [(''results'', JArray [JObject []])] ''results'' = Some (JArray [JObject []])"
    by simp
  have c: "first_transcript (Some (JArray [JObject []])) = Inl TypeError"
    by (simp add: first_transcript_def and_then_def)
  note t1 = transcribeAudio_rejections [of some_engine "ReadResult url12" "FetchResponse 403"
      "JsonValue JNull" "[(''error'', JNull)]" url12 403 "JObject []" "[]" TypeError 0 0 0]
  note t2 = transcribeAudio_rejections [of some_engine "ReadResult url12" "FetchResponse 200"
      "JsonValue JNull" "[(''results'', JArray [JObject []])]" url12 200 "JObject []" "[]"
      TypeError 0 0 0]
  from t1 a have d: "transcribeAudio_promise some_engine (ReadResult url12) (FetchResponse 403)
      (JsonValue (JObject [(''error'', JNull)])) = Rejects (StringValue ''No transcript found'')"
    by blast
  from t1 have e: "transcribeAudio_promise some_engine (ReadResult url12) (FetchResponse 403)
      (JsonValue JNull) = Rejects TypeError"
    by blast
  from t2 b c have f: "transcribeAudio_promise some_engine (ReadResult url12) (FetchResponse 200)
      (JsonValue (JObject [(''results'', JArray [JObject []])])) = Rejects TypeError"
    by blast
  from a b c d e f show ?thesis
    by blast
qed

subsection \<open>C5: a failed stage stops the run\<close>

text \<open>
  Claim C5. In a run whose transcription fails, \<open>cleanText\<close> is not called, no generative
  request is sent and nothing is written to the editor. In a run whose transcription
  succeeds and whose refinement fails, nothing is written to the editor, so the raw
  transcript is not delivered either.
\<close>

theorem failure_aborts_the_rest:
  "(\<forall>err. transcription e s = Inl err \<longrightarrow>
      filter is_refinement (snd (handleStop e s)) = []
      \<and> filter is_delivery (snd (handleStop e s)) = [])
   \<and> (\<forall>t err. transcription e s = Inr t \<and> refinement e s t = Inl err \<longrightarrow>
      filter is_delivery (snd (handleStop e s)) = [])"
proof (intro conjI allI impI)
  fix err
  assume "transcription e s = Inl err"
  then have "snd (handleStop e s) =
      [CallTranscribeAudio (audioBlob s), Fetch (recognize_body s (audioBlob s))]
      @ handleStop_catch (Some err) @ [ClearChunks]"
    by (simp add: handleStop_events handleStop_try_transcription_fails)
  then show "filter is_refinement (snd (handleStop e s)) = []"
    and "filter is_delivery (snd (handleStop e s)) = []"
    by (simp_all add: filter_catch_refinement filter_catch_delivery)
next
  fix t err
  assume "transcription e s = Inr t \<and> refinement e s t = Inl err"
  then have "snd (handleStop e s) =
      [CallTranscribeAudio (audioBlob s), Fetch (recognize_body s (audioBlob s))]
      @ snd (cleanText (generate_result e) s t) @ handleStop_catch (Some err) @ [ClearChunks]"
    by (simp add: handleStop_events handleStop_try_refinement_fails)
  then show "filter is_delivery (snd (handleStop e s)) = []"
    by (simp add: filter_catch_delivery filter_cleanText_delivery)
qed

text \<open>One run of each kind on the recording of two chunks.\<close>

theorem failure_aborts_the_rest_witness:
  "transcription env_error_status recorded = Inl (StringValue ''No transcript found'')
   \<and> filter is_refinement (snd (handleStop env_error_status recorded)) = []
   \<and> filter is_delivery (snd (handleStop env_error_status recorded)) = []
   \<and> transcription env_refine_fails recorded = Inr ''test phrase''
   \<and> refinement env_refine_fails recorded ''test phrase'' = Inl (HostError 7)
   \<and> filter is_delivery (snd (handleStop env_refine_fails recorded)) = []"
proof -
  have g: "genAI recorded = Some (GoogleGenerativeAI ''k'')"
    by (simp add: recorded_fields)
  have a: "transcription env_error_status recorded = Inl (StringValue ''No transcript found'')"
    by (simp add: transcription_def env_error_status_def transcribeAudio_def read_transcript_def)
  have b: "transcription env_refine_fails recorded = Inr ''test phrase''"
    by (simp add: transcription_def env_refine_fails_def heard_def transcribeAudio_def
        read_transcript_def)
  have c: "refinement env_refine_fails recorded ''test phrase'' = Inl (HostError 7)"
    by (simp add: refinement_def env_refine_fails_def cleanText_def g)
  show ?thesis
    using a b c failure_aborts_the_rest [of env_error_status recorded]
      failure_aborts_the_rest [of env_refine_fails recorded]
    by blast
qed

subsection \<open>C6: the finalized blob\<close>

text \<open>
  Claim C6 fails when a recording is made while the run of the one before has not settled.
  In \<open>record_again_while_processing\<close> the first run awaits the recognition service and
  still holds its chunk of two bytes; the second period (\<open>second_period\<close>) appends one
  chunk of one byte, and the blob built at its end has three bytes.
\<close>

theorem held_over_chunks_counterexample:
  "arrivals second_period = [\<lparr>blob_bytes = [3], blob_type = ''audio/webm;codecs=opus''\<rparr>]
   \<and> exec some_engine record_again_while_processing loaded_system =
     Some
      (\<lparr>plug = \<lparr>settings = \<lparr>googleApiKey = [], geminiApiKey = [], languageCode = ''en-US''\<rparr>,
          isRecording = False,
          mediaRecorder = Some \<lparr>rec_stream = 2, rec_state = inactive\<rparr>,
          audioChunks =
            [\<lparr>blob_bytes = [1, 2], blob_type = ''audio/webm;codecs=opus''\<rparr>,
             \<lparr>blob_bytes = [3], blob_type = ''audio/webm;codecs=opus''\<rparr>],
          genAI = None\<rparr>,
        starting = 0, runs = [AwaitFetch, AwaitRead]\<rparr>,
       [(None, GetUserMedia), (None, NewMediaRecorder 1), (None, RecorderStart),
        (None, Notice ''Recording started...''), (None, RecorderStop),
        (None, Notice ''Recording stopped.''),
        (Some 0, CallTranscribeAudio \<lparr>blob_bytes = [1, 2], blob_type = ''audio/webm''\<rparr>),
        (Some 0, ReadAsDataURL \<lparr>blob_bytes = [1, 2], blob_type = ''audio/webm''\<rparr>),
        (Some 0, FetchRecognize
          \<lparr>call_url = ''https://speech.googleapis.com/v1/speech:recognize?key='',
           call_encoding = ''WEBM_OPUS'', call_sampleRateHertz = 48000,
           call_languageCode = ''en-US'', call_content = Some ''AQI=''\<rparr>),
        (None, GetUserMedia), (None, NewMediaRecorder 2), (None, RecorderStart),
        (None, Notice ''Recording started...''), (None, RecorderStop),
        (None, Notice ''Recording stopped.''),
        (Some 1, CallTranscribeAudio \<lparr>blob_bytes = [1, 2, 3], blob_type = ''audio/webm''\<rparr>),
        (Some 1, ReadAsDataURL \<lparr>blob_bytes = [1, 2, 3], blob_type = ''audio/webm''\<rparr>)])"
  by (simp add: record_again_while_processing_def second_period_def loaded_system_def
      loaded_fields seg1_def seg2_def url12_def outside_def suspends_def awaiting_def tag_def
      stopRecording_def ondataavailable_def handleStop_call_def audioBlob_def new_Blob_def
      onloadend_def post_recognize_def recognize_url_def second_field_def)

text \<open>
  Claim C6, amended. Take the machine in any state and let any host events follow in which
  no run of the pipeline clears the chunks, the chunks \<open>arrivals evs\<close> arriving among
  them in this order. The blob that the next stop event builds, and hands to
  \<open>transcribeAudio\<close> and to the reader as the first things the new run does, has the bytes
  of the chunks held at the beginning followed by the bytes of the chunks that arrived, in
  the order of arrival; it has the bytes of the arrived chunks alone when none was held.
\<close>

theorem audioBlob_of_chunks_held:
  assumes "exec eng evs sys = Some (sys', effs)"
    and "ClearChunks \<notin> snd ` set effs"
    and "mediaRecorder (plug sys') \<noteq> None"
  shows "audioBlob (plug sys') =
           \<lparr>blob_bytes = concat (map blob_bytes (audioChunks (plug sys)))
              @ concat (map blob_bytes (arrivals evs)),
            blob_type = ''audio/webm''\<rparr>
       \<and> step eng RecorderStopped sys' =
           Some (sys'\<lparr>runs := runs sys' @ [AwaitRead]\<rparr>,
                 [(Some (length (runs sys')), CallTranscribeAudio (audioBlob (plug sys'))),
                  (Some (length (runs sys')), ReadAsDataURL (audioBlob (plug sys')))])"
proof -
  have "audioChunks (plug sys') = audioChunks (plug sys) @ arrivals evs"
    by (rule exec_chunks [OF assms(1) assms(2)])
  then have "audioBlob (plug sys') =
      \<lparr>blob_bytes = concat (map blob_bytes (audioChunks (plug sys)))
         @ concat (map blob_bytes (arrivals evs)),
       blob_type = ''audio/webm''\<rparr>"
    by (simp add: audioBlob_def new_Blob_def)
  moreover have "step eng RecorderStopped sys' =
      Some (sys'\<lparr>runs := runs sys' @ [AwaitRead]\<rparr>,
            [(Some (length (runs sys')), CallTranscribeAudio (audioBlob (plug sys'))),
             (Some (length (runs sys')), ReadAsDataURL (audioBlob (plug sys')))])"
    using assms(3) by (simp add: handleStop_call_def tag_def)
  ultimately show ?thesis
    by simp
qed

text \<open>The second period of the counterexample: one chunk held, one chunk arriving.\<close>

theorem audioBlob_of_chunks_held_witness:
  "exec some_engine second_period first_pending = Some (second_stopped, second_period_effects)
   \<and> ClearChunks \<notin> snd ` set second_period_effects
   \<and> mediaRecorder (plug second_stopped) \<noteq> None
   \<and> audioChunks (plug first_pending) = [seg1]
   \<and> arrivals second_period = [seg2]
   \<and> audioBlob (plug second_stopped) = \<lparr>blob_bytes = [1, 2, 3], blob_type = ''audio/webm''\<rparr>"
proof -
  have a: "ClearChunks \<notin> snd ` set second_period_effects"
    by (simp add: second_period_effects_def)
  have b: "mediaRecorder (plug second_stopped) \<noteq> None"
    by (simp add: second_stopped_def)
  have c: "audioChunks (plug first_pending) = [seg1]"
    by (simp add: first_pending_def)
  have d: "arrivals second_period = [seg2]"
    by (simp add: second_period_def)
  from audioBlob_of_chunks_held [OF first_pending_second_period a b] c d
  have "audioBlob (plug second_stopped) = \<lparr>blob_bytes = [1, 2, 3], blob_type = ''audio/webm''\<rparr>"
    by (simp add: seg1_def seg2_def del: step.simps)
  with a b c d first_pending_second_period show ?thesis
    by blast
qed

subsection \<open>C7: refinement without a credential\<close>

text \<open>
  Claim C7 fails after an edit of the credential. In \<open>edited\<close> the credential was empty at
  load and has been set since: it is configured, and \<open>cleanText\<close> still fails without a
  request. In \<open>cleared\<close> the credential was set at load and has been emptied since: it is
  not configured, and \<open>cleanText\<close> still sends the request.
\<close>

theorem credential_edit_counterexample:
  "geminiApiKey (settings edited) = ''k''
   \<and> cleanText (GenerateResponds (TextReturns ''Hello.'')) edited ''helo'' =
       (Inl (ErrorObject ''Generative AI not initialized.''), [CallCleanText ''helo''])
   \<and> geminiApiKey (settings cleared) = []
   \<and> cleanText (GenerateResponds (TextReturns ''Hello.'')) cleared ''helo'' =
       (Inr ''Hello.'',
        [CallCleanText ''helo'',
         GenerateContent (GoogleGenerativeAI ''k'') ''gemini-pro'' (instruction @ ''helo'')])"
  by (simp add: edited_fields cleared_fields cleanText_def)

text \<open>
  Claim C7, amended. What decides is the credential as it was when the plugin loaded. If it
  was empty then, \<open>cleanText\<close> fails at once with the error
  \<^verbatim>\<open>Generative AI not initialized.\<close> and sends nothing; if it was not empty then,
  \<open>cleanText\<close> sends the request, with the client made from that credential. Both hold
  after any clicks, chunks, pipeline runs and settings edits that follow the load.
\<close>

theorem cleanText_configured_at_load:
  "(key_at_load saved = [] \<longrightarrow>
      cleanText g (fst (run acts (fst (onload saved new_plugin)))) text =
        (Inl (ErrorObject ''Generative AI not initialized.''), [CallCleanText text]))
   \<and> (key_at_load saved \<noteq> [] \<longrightarrow>
      snd (cleanText g (fst (run acts (fst (onload saved new_plugin)))) text) =
        [CallCleanText text,
         GenerateContent (GoogleGenerativeAI (key_at_load saved)) ''gemini-pro''
           (instruction @ text)])"
  by (simp add: cleanText_def run_genAI onload_genAI)

text \<open>The two states of the counterexample, reached by one edit after the load.\<close>

theorem cleanText_configured_at_load_witness:
  "key_at_load None = []
   \<and> cleanText (GenerateResponds (TextReturns ''Hello.''))
        (fst (run [EditGeminiApiKey ''k''] (fst (onload None new_plugin)))) ''helo'' =
        (Inl (ErrorObject ''Generative AI not initialized.''), [CallCleanText ''helo''])
   \<and> key_at_load (Some saved_keys) \<noteq> []
   \<and> snd (cleanText (GenerateResponds (TextReturns ''Hello.''))
        (fst (run [EditGeminiApiKey []] (fst (onload (Some saved_keys) new_plugin)))) ''helo'') =
        [CallCleanText ''helo'',
         GenerateContent (GoogleGenerativeAI ''k'') ''gemini-pro'' (instruction @ ''helo'')]"
proof -
  have a: "key_at_load None = []"
    by (simp add: key_at_load_def object_assign_def DEFAULT_SETTINGS_def)
  have b: "key_at_load (Some saved_keys) = ''k''"
    by (simp add: key_at_load_def object_assign_def saved_keys_def)
  show ?thesis
    using a b
      cleanText_configured_at_load [of None "GenerateResponds (TextReturns ''Hello.'')"
        "[EditGeminiApiKey ''k'']" "''helo''"]
      cleanText_configured_at_load [of "Some saved_keys"
        "GenerateResponds (TextReturns ''Hello.'')" "[EditGeminiApiKey []]" "''helo''"]
    by simp
qed

subsection \<open>C8: delivery\<close>

text \<open>
  Claim C8 fails when no Markdown editor is active: transcription and refinement succeed,
  no error is reported, and the refined text is written nowhere.
\<close>

theorem no_editor_counterexample:
  "snd (handleStop env_no_editor recorded) =
     [CallTranscribeAudio \<lparr>blob_bytes = [1, 2, 3], blob_type = ''audio/webm''\<rparr>,
      Fetch (recognize_body recorded \<lparr>blob_bytes = [1, 2, 3], blob_type = ''audio/webm''\<rparr>),
      CallCleanText ''test phrase'',
      GenerateContent (GoogleGenerativeAI ''k'') ''gemini-pro'' (instruction @ ''test phrase''),
      ClearChunks]"
  by (simp add: recorded_fields env_no_editor_def heard_def seg1_def seg2_def handleStop_def
      handleStop_try_def handleStop_catch_def audioBlob_def new_Blob_def transcribeAudio_def
      read_transcript_def cleanText_def)

text \<open>
  Claim C8, amended. In a run whose transcription and refinement both succeed, the refined
  text is written to the editor exactly once, and nothing else is, if a Markdown editor is
  active; if none is active, nothing is written. In neither case is an error reported, by
  notice or on the console: the effects of the run are the two calls with their requests,
  the write if there is one, and the clearing of the chunks.
\<close>

theorem delivery_once_when_editor:
  assumes "transcription e s = Inr t" and "refinement e s t = Inr c"
  shows "filter is_delivery (snd (handleStop e s)) =
           (if activeEditor e then [ReplaceSelection c] else [])
       \<and> filter is_report (snd (handleStop e s)) = []
       \<and> snd (handleStop e s) =
           [CallTranscribeAudio (audioBlob s), Fetch (recognize_body s (audioBlob s))]
           @ snd (cleanText (generate_result e) s t)
           @ (if activeEditor e then [ReplaceSelection c] else [])
           @ [ClearChunks]"
  using assms
  by (simp add: handleStop_events handleStop_try_succeeds handleStop_catch_def
      filter_cleanText_delivery filter_cleanText_report)

text \<open>
  The run of the recording of two chunks with an active editor, and the same run with
  none.
\<close>

theorem delivery_once_when_editor_witness:
  "transcription env_editor recorded = Inr ''test phrase''
   \<and> refinement env_editor recorded ''test phrase'' = Inr ''Test phrase.''
   \<and> filter is_delivery (snd (handleStop env_editor recorded)) = [ReplaceSelection ''Test phrase.'']
   \<and> filter is_report (snd (handleStop env_editor recorded)) = []
   \<and> transcription env_no_editor recorded = Inr ''test phrase''
   \<and> refinement env_no_editor recorded ''test phrase'' = Inr ''Test phrase.''
   \<and> filter is_delivery (snd (handleStop env_no_editor recorded)) = []
   \<and> filter is_report (snd (handleStop env_no_editor recorded)) = []"
proof -
  have a: "transcription env_editor recorded = Inr ''test phrase''"
    by (simp add: transcription_def env_editor_def heard_def transcribeAudio_def
        read_transcript_def)
  have b: "refinement env_editor recorded ''test phrase'' = Inr ''Test phrase.''"
    by (simp add: refinement_def env_editor_def cleanText_def recorded_fields)
  have a': "transcription env_no_editor recorded = Inr ''test phrase''"
    by (simp add: transcription_def env_no_editor_def heard_def transcribeAudio_def
        read_transcript_def)
  have b': "refinement env_no_editor recorded ''test phrase'' = Inr ''Test phrase.''"
    by (simp add: refinement_def env_no_editor_def cleanText_def recorded_fields)
  have c: "activeEditor env_editor" and c': "\<not> activeEditor env_no_editor"
    by (simp_all add: env_editor_def env_no_editor_def)
  note t = delivery_once_when_editor [OF a b]
  note t' = delivery_once_when_editor [OF a' b']
  from t [THEN conjunct1] c
  have d1: "filter is_delivery (snd (handleStop env_editor recorded)) = [ReplaceSelection ''Test phrase.'']"
    by simp
  have d2: "filter is_report (snd (handleStop env_editor recorded)) = []"
    by (rule t [THEN conjunct2, THEN conjunct1])
  from t' [THEN conjunct1] c'
  have d3: "filter is_delivery (snd (handleStop env_no_editor recorded)) = []"
    by simp
  have d4: "filter is_report (snd (handleStop env_no_editor recorded)) = []"
    by (rule t' [THEN conjunct2, THEN conjunct1])
  from a b a' b' d1 d2 d3 d4 show ?thesis
    by blast
qed

subsection \<open>C9: the prompt and the completion\<close>

text \<open>
  Claim C9. With a generative client present, the one request \<open>cleanText\<close> sends carries
  the fixed instruction followed by the given text, unchanged, for every text; and the
  text of the service's completion is what \<open>cleanText\<close> returns, unchanged.
\<close>

theorem cleanText_prompt_and_completion:
  assumes "genAI s = Some ai"
  shows "snd (cleanText g s text) =
           [CallCleanText text, GenerateContent ai ''gemini-pro'' (instruction @ text)]
       \<and> fst (cleanText (GenerateResponds (TextReturns completion)) s text) = Inr completion"
  using assms by (simp add: cleanText_def)

text \<open>The raw text \<^verbatim>\<open>helo wrld\<close>.\<close>

theorem cleanText_prompt_and_completion_witness:
  "genAI configured = Some (GoogleGenerativeAI ''k'')
   \<and> snd (cleanText (GenerateRejects 0) configured ''helo wrld'') =
       [CallCleanText ''helo wrld'',
        GenerateContent (GoogleGenerativeAI ''k'') ''gemini-pro'' (instruction @ ''helo wrld'')]
   \<and> fst (cleanText (GenerateResponds (TextReturns ''Hello world.'')) configured ''helo wrld'')
       = Inr ''Hello world.''"
proof -
  have a: "genAI configured = Some (GoogleGenerativeAI ''k'')"
    by (simp add: configured_fields)
  show ?thesis
    using a cleanText_prompt_and_completion [OF a, of "GenerateRejects 0" "''helo wrld''"
        "''Hello world.''"]
    by simp
qed

subsection \<open>C10: the generative client is made at load\<close>

text \<open>
  Claim C10. \<open>onload\<close> on the new plugin sets the generative client exactly when the loaded
  credential is not empty, from that credential. No callback of the loaded plugin (click,
  chunk, pipeline run, edit of any of the three settings) changes the client, so after any
  sequence of them the client is the one of the load. Hence \<open>cleanText\<close> fails with
  \<^verbatim>\<open>Generative AI not initialized.\<close> exactly when the credential was empty at load.
\<close>

theorem genAI_fixed_at_load:
  "genAI (fst (onload saved new_plugin)) =
     (if key_at_load saved = [] then None else Some (GoogleGenerativeAI (key_at_load saved)))
   \<and> genAI (fst (perform a s)) = genAI s
   \<and> genAI (fst (run acts (fst (onload saved new_plugin)))) = genAI (fst (onload saved new_plugin))
   \<and> (fst (cleanText g (fst (run acts (fst (onload saved new_plugin)))) text)
        = Inl (ErrorObject ''Generative AI not initialized.'')
      \<longleftrightarrow> key_at_load saved = [])"
proof -
  have "fst (cleanText g (fst (run acts (fst (onload saved new_plugin)))) text)
        = Inl (ErrorObject ''Generative AI not initialized.'')
      \<longleftrightarrow> key_at_load saved = []"
    by (auto simp: cleanText_def run_genAI onload_genAI
        split: generate_outcome.splits text_outcome.splits)
  then show ?thesis
    by (simp add: run_genAI onload_genAI perform_genAI)
qed

text \<open>A load with no credential, then the credential is entered and recording starts.\<close>

theorem genAI_fixed_at_load_witness:
  "genAI (fst (run [EditGeminiApiKey ''k'', Click (Captures 1)] (fst (onload None new_plugin))))
     = None
   \<and> geminiApiKey (settings (fst (run [EditGeminiApiKey ''k'', Click (Captures 1)]
        (fst (onload None new_plugin))))) = ''k''
   \<and> fst (cleanText (GenerateResponds (TextReturns ''Hello.''))
        (fst (run [EditGeminiApiKey ''k'', Click (Captures 1)] (fst (onload None new_plugin))))
        ''helo'') = Inl (ErrorObject ''Generative AI not initialized.'')"
proof -
  have a: "key_at_load None = []"
    by (simp add: key_at_load_def object_assign_def DEFAULT_SETTINGS_def)
  have b: "geminiApiKey (settings (fst (run [EditGeminiApiKey ''k'', Click (Captures 1)]
        (fst (onload None new_plugin))))) = ''k''"
    by (simp add: onload_def loadSettings_def new_plugin_def onChange_geminiApiKey_def
        toggleRecording_def Let_def)
  show ?thesis
    using a b
      genAI_fixed_at_load [of None "Click (Captures 1)" loaded
        "[EditGeminiApiKey ''k'', Click (Captures 1)]"
        "GenerateResponds (TextReturns ''Hello.'')" "''helo''"]
    by simp
qed

end
